theory Spec2Isabelle
  imports Main "HOL-Library.Word" "HOL-Library.List_Lexorder"
begin

section \<open>JavaScript strings\<close>

text \<open>
  A JavaScript string is a sequence of UTF-16 code units. The regular expressions of the
  source carry no \<open>u\<close> flag, so \<open>replace\<close>, \<open>split\<close>, \<open>trim\<close>,
  \<open>charCodeAt\<close> and \<open>String.fromCharCode\<close> all work on code units.
\<close>

type_synonym jschar = "16 word"
type_synonym jsstring = "jschar list"

text \<open>
  \<open>String.prototype.trim\<close> removes the WhiteSpace and LineTerminator code points of
  ECMAScript from both ends.
\<close>

definition js_whitespace :: "jschar \<Rightarrow> bool" where
  "js_whitespace c \<longleftrightarrow>
     c = 0x0009 \<or> c = 0x000A \<or> c = 0x000B \<or> c = 0x000C \<or> c = 0x000D \<or> c = 0x0020 \<or>
     c = 0x00A0 \<or> c = 0x1680 \<or> (0x2000 \<le> c \<and> c \<le> 0x200A) \<or> c = 0x2028 \<or>
     c = 0x2029 \<or> c = 0x202F \<or> c = 0x205F \<or> c = 0x3000 \<or> c = 0xFEFF"

definition trim :: "jsstring \<Rightarrow> jsstring" where
  "trim s = rev (dropWhile js_whitespace (rev (dropWhile js_whitespace s)))"

text \<open>
  \<open>s.split(sep)\<close> for a one-unit separator: every occurrence of the separator ends a
  piece, and the empty string gives the one piece \<open>''\<close>.
\<close>

fun split :: "jschar \<Rightarrow> jsstring \<Rightarrow> jsstring list" where
  "split sep [] = [[]]"
| "split sep (c # cs) =
     (if c = sep then [] # split sep cs
      else (case split sep cs of [] \<Rightarrow> [[c]] | p # ps \<Rightarrow> (c # p) # ps))"

text \<open>
  \<open>parts[i] || ''\<close>: an index past the end reads \<open>undefined\<close>, which like the empty
  string is falsy, so both give \<open>''\<close>.
\<close>

definition part_or_empty :: "jsstring list \<Rightarrow> nat \<Rightarrow> jsstring" where
  "part_or_empty parts i = (if i < length parts then parts ! i else [])"

text \<open>\<open>a || b\<close> on strings: the empty string is falsy.\<close>

definition str_or :: "jsstring \<Rightarrow> jsstring \<Rightarrow> jsstring" where
  "str_or a b = (if a = [] then b else a)"

abbreviation SPACE :: jschar where
  "SPACE \<equiv> 0x0020"

text \<open>
  The store compares strings by their UTF-8 bytes, which is the order of their code
  points: a surrogate pair is one code point above U+FFFF, any other unit is itself.
\<close>

fun codepoints :: "jsstring \<Rightarrow> int list" where
  "codepoints [] = []"
| "codepoints [c] = [uint c]"
| "codepoints (c # d # cs) =
     (if 0xD800 \<le> c \<and> c \<le> 0xDBFF \<and> 0xDC00 \<le> d \<and> d \<le> 0xDFFF
      then (0x10000 + (uint c - 0xD800) * 0x400 + (uint d - 0xDC00)) # codepoints cs
      else uint c # codepoints (d # cs))"

section \<open>Script normalizer\<close>

text \<open>
  \<^verbatim>\<open>str.replace(/[U+3041-U+3096]/g, m => String.fromCharCode(m.charCodeAt(0) + 0x60))\<close>
  replaces every code unit of the class by one code unit and keeps all others, so it is
  a map over the units; \<open>String.fromCharCode\<close> reduces modulo \<open>2 ^ 16\<close>, as word
  addition does.
\<close>

definition hiragana_source :: "jschar \<Rightarrow> bool" where
  "hiragana_source c \<longleftrightarrow> 0x3041 \<le> c \<and> c \<le> 0x3096"

definition katakana_source :: "jschar \<Rightarrow> bool" where
  "katakana_source c \<longleftrightarrow> 0x30A1 \<le> c \<and> c \<le> 0x30F6"

definition convertHiraganaToKatakana :: "jsstring \<Rightarrow> jsstring" where
  "convertHiraganaToKatakana str = map (\<lambda>c. if hiragana_source c then c + 0x60 else c) str"

definition convertKatakanaToHiragana :: "jsstring \<Rightarrow> jsstring" where
  "convertKatakanaToHiragana str = map (\<lambda>c. if katakana_source c then c - 0x60 else c) str"

text \<open>The Unicode blocks Hiragana (U+3040..U+309F) and Katakana (U+30A0..U+30FF).\<close>

definition hiragana_block :: "jschar \<Rightarrow> bool" where
  "hiragana_block c \<longleftrightarrow> 0x3040 \<le> c \<and> c \<le> 0x309F"

definition katakana_block :: "jschar \<Rightarrow> bool" where
  "katakana_block c \<longleftrightarrow> 0x30A0 \<le> c \<and> c \<le> 0x30FF"

section \<open>Host environment\<close>

text \<open>
  A Firestore \<open>Timestamp\<close> made by \<open>Timestamp.now()\<close> or \<open>Timestamp.fromDate\<close> is a
  number of milliseconds since the epoch. A JavaScript \<open>Date\<close> is such a number or the
  Invalid Date (\<open>None\<close>). \<open>timestamp.toDate()\<close> is always a valid \<open>Date\<close>.
\<close>

type_synonym timestamp = int
type_synonym jsdate = "int option"

definition toDate :: "timestamp \<Rightarrow> jsdate" where
  "toDate ts = Some ts"

text \<open>
  What an asynchronous operation can reject with: \<open>new Error(message)\<close> thrown by the
  source itself, a \<open>FirebaseError\<close> of the store, or an error raised inside a library
  call of the host.
\<close>

datatype firestore_code =
  PermissionDenied | Unavailable | NotFound | InvalidArgument | FailedPrecondition

datatype error = Error jsstring | FirebaseError firestore_code | HostError

datatype date_format = YYYY_MM_DD | YYYY_nen_MM_gatsu_DD_nichi

text \<open>
  The library functions the services call are parameters of the model:
  \<^item> \<open>new_Date s\<close> is \<open>new Date(s)\<close>;
  \<^item> \<open>dayjs s\<close> is the date \<open>dayjs(s)\<close> parses from a string;
  \<^item> \<open>format f d\<close> is \<open>dayjs(d).format(f)\<close>, in the time zone of the host;
  \<^item> \<open>Timestamp_fromDate d\<close> is \<open>Timestamp.fromDate(d)\<close>, which may throw;
  \<^item> \<open>localeCompare a b\<close> is \<open>a.localeCompare(b)\<close>, the collation of the host's locale;
  \<^item> \<open>autoId n\<close> is the identifier the store gives to the \<open>n\<close>-th document it adds.
\<close>

record host =
  new_Date :: "jsstring \<Rightarrow> jsdate"
  dayjs :: "jsstring \<Rightarrow> jsdate"
  format :: "date_format \<Rightarrow> jsdate \<Rightarrow> jsstring"
  Timestamp_fromDate :: "jsdate \<Rightarrow> error + timestamp"
  localeCompare :: "jsstring \<Rightarrow> jsstring \<Rightarrow> int"
  autoId :: "nat \<Rightarrow> jsstring"

section \<open>Data model\<close>

datatype gender = Dansei | Josei

text \<open>\<open>ResidentFormData\<close>; an optional field is an \<open>option\<close>.\<close>

record ResidentFormData =
  f_name :: jsstring
  f_furigana :: jsstring
  f_gender :: gender
  f_birthDate :: jsstring
  f_roomNumber :: jsstring
  f_admissionDate :: jsstring
  f_dischargeDate :: "jsstring option"
  f_medicalHistory :: jsstring
  f_medications :: "jsstring list"
  f_careLevel :: "nat option"

text \<open>\<open>Partial<ResidentFormData>\<close>: every field may be \<open>undefined\<close>.\<close>

record PartialResidentFormData =
  p_name :: "jsstring option"
  p_furigana :: "jsstring option"
  p_gender :: "gender option"
  p_birthDate :: "jsstring option"
  p_roomNumber :: "jsstring option"
  p_admissionDate :: "jsstring option"
  p_dischargeDate :: "jsstring option"
  p_medicalHistory :: "jsstring option"
  p_medications :: "jsstring list option"
  p_careLevel :: "nat option"

text \<open>
  A stored resident document, with the fields \<open>residentService.create\<close> writes; the
  \<open>null\<close> of \<open>dischargeDate\<close> is \<open>None\<close>.
\<close>

record resident_doc =
  d_name :: jsstring
  d_furigana :: jsstring
  d_lastName :: jsstring
  d_firstName :: jsstring
  d_lastNameKana :: jsstring
  d_firstNameKana :: jsstring
  d_gender :: gender
  d_birthDate :: timestamp
  d_roomNumber :: jsstring
  d_admissionDate :: timestamp
  d_dischargeDate :: "timestamp option"
  d_medicalHistory :: jsstring
  d_medications :: "jsstring list"
  d_careLevel :: nat
  d_createdAt :: timestamp
  d_updatedAt :: timestamp

text \<open>
  The \<open>updateData\<close> object handed to \<open>updateDoc\<close>: a field is \<open>Some\<close> when the object has
  that key. \<open>u_dischargeDate = Some None\<close> is the key with the value \<open>null\<close>.
\<close>

record resident_update =
  u_name :: "jsstring option"
  u_furigana :: "jsstring option"
  u_lastName :: "jsstring option"
  u_firstName :: "jsstring option"
  u_lastNameKana :: "jsstring option"
  u_firstNameKana :: "jsstring option"
  u_gender :: "gender option"
  u_birthDate :: "timestamp option"
  u_roomNumber :: "jsstring option"
  u_admissionDate :: "timestamp option"
  u_dischargeDate :: "timestamp option option"
  u_medicalHistory :: "jsstring option"
  u_medications :: "jsstring list option"
  u_careLevel :: "nat option"
  u_updatedAt :: "timestamp option"

text \<open>The \<open>Resident\<close> the services return.\<close>

record Resident =
  r_id :: jsstring
  r_name :: jsstring
  r_furigana :: jsstring
  r_lastName :: jsstring
  r_firstName :: jsstring
  r_lastNameKana :: jsstring
  r_firstNameKana :: jsstring
  r_gender :: gender
  r_birthDate :: jsdate
  r_roomNumber :: jsstring
  r_admissionDate :: jsdate
  r_dischargeDate :: "jsdate option"
  r_medicalHistory :: jsstring
  r_medications :: "jsstring list"
  r_careLevel :: nat
  r_createdAt :: jsdate
  r_updatedAt :: jsdate

record MedicalRecordFormData =
  mf_date :: jsstring
  mf_record :: jsstring

record PartialMedicalRecordFormData =
  mp_date :: "jsstring option"
  mp_record :: "jsstring option"

record record_doc =
  md_residentId :: jsstring
  md_date :: timestamp
  md_record :: jsstring
  md_createdAt :: timestamp
  md_updatedAt :: timestamp

record record_update =
  mu_date :: "timestamp option"
  mu_record :: "jsstring option"
  mu_updatedAt :: "timestamp option"

record MedicalRecord =
  m_id :: jsstring
  m_residentId :: jsstring
  m_date :: jsdate
  m_record :: jsstring
  m_createdAt :: jsdate
  m_updatedAt :: jsdate

section \<open>The document store\<close>

datatype collection = RESIDENTS | MEDICAL_RECORDS

datatype fvalue = VStr jsstring | VNum nat | VArr "jsstring list"

datatype whereop = GE | LE | EQ | ARRAY_CONTAINS

text \<open>\<open>where(field, op, value)\<close> and \<open>orderBy(field)\<close>.\<close>

datatype constraint = Where string whereop fvalue | OrderBy string

text \<open>Every call that goes to the store is recorded.\<close>

datatype call =
  GetDocs collection "constraint list"
| AddDoc collection
| UpdateDoc collection jsstring

text \<open>
  The state of the world: the two collections, each a list of documents with their
  identifiers; the calls made to the store so far; for each coming call whether the store
  will fail it, and with which error (no entry: the call succeeds); the reading of
  \<open>Timestamp.now()\<close>; and the number of documents added so far.
\<close>

record world =
  residents :: "(jsstring \<times> resident_doc) list"
  medicalRecords :: "(jsstring \<times> record_doc) list"
  calls :: "call list"
  faults :: "error option list"
  clock :: timestamp
  issued :: nat

definition next_fault :: "world \<Rightarrow> error option" where
  "next_fault w = (case faults w of [] \<Rightarrow> None | f # _ \<Rightarrow> f)"

definition storage_call :: "call \<Rightarrow> world \<Rightarrow> world" where
  "storage_call c w = w\<lparr>calls := calls w @ [c], faults := tl (faults w)\<rparr>"

text \<open>The fields of a stored document that the queries of the source name.\<close>

definition resident_field :: "string \<Rightarrow> resident_doc \<Rightarrow> fvalue option" where
  "resident_field f d =
     (if f = ''name'' then Some (VStr (d_name d))
      else if f = ''lastName'' then Some (VStr (d_lastName d))
      else if f = ''firstName'' then Some (VStr (d_firstName d))
      else if f = ''furigana'' then Some (VStr (d_furigana d))
      else if f = ''lastNameKana'' then Some (VStr (d_lastNameKana d))
      else if f = ''firstNameKana'' then Some (VStr (d_firstNameKana d))
      else if f = ''roomNumber'' then Some (VStr (d_roomNumber d))
      else if f = ''medicalHistory'' then Some (VStr (d_medicalHistory d))
      else if f = ''careLevel'' then Some (VNum (d_careLevel d))
      else if f = ''medications'' then Some (VArr (d_medications d))
      else None)"

definition record_field :: "string \<Rightarrow> record_doc \<Rightarrow> fvalue option" where
  "record_field f d =
     (if f = ''residentId'' then Some (VStr (md_residentId d))
      else if f = ''record'' then Some (VStr (md_record d))
      else None)"

text \<open>
  A \<open>where\<close> filter holds of a document when the field exists, has the type of the
  operand, and compares as asked; strings are compared in code-point order.
\<close>

fun satisfies :: "fvalue option \<Rightarrow> whereop \<Rightarrow> fvalue \<Rightarrow> bool" where
  "satisfies (Some (VStr a)) GE (VStr b) = (codepoints b \<le> codepoints a)"
| "satisfies (Some (VStr a)) LE (VStr b) = (codepoints a \<le> codepoints b)"
| "satisfies (Some (VNum a)) GE (VNum b) = (b \<le> a)"
| "satisfies (Some (VNum a)) LE (VNum b) = (a \<le> b)"
| "satisfies (Some v) EQ b = (v = b)"
| "satisfies (Some (VArr xs)) ARRAY_CONTAINS (VStr b) = (b \<in> set xs)"
| "satisfies _ _ _ = False"

fun holds :: "(string \<Rightarrow> 'd \<Rightarrow> fvalue option) \<Rightarrow> 'd \<Rightarrow> constraint \<Rightarrow> bool" where
  "holds get d (Where f op v) = satisfies (get f d) op v"
| "holds get d (OrderBy f) = (get f d \<noteq> None)"

text \<open>
  \<open>orderBy\<close> on a string field sorts by code points; the source orders on \<open>name\<close> only.
  A query without \<open>orderBy\<close> gives its documents in the order of the collection.
\<close>

definition order_key :: "fvalue option \<Rightarrow> int list" where
  "order_key v = (case v of Some (VStr s) \<Rightarrow> codepoints s | _ \<Rightarrow> [])"

fun order_fields :: "constraint list \<Rightarrow> string list" where
  "order_fields [] = []"
| "order_fields (OrderBy f # cs) = f # order_fields cs"
| "order_fields (_ # cs) = order_fields cs"

definition run_query ::
  "(string \<Rightarrow> 'd \<Rightarrow> fvalue option) \<Rightarrow> constraint list \<Rightarrow> (jsstring \<times> 'd) list \<Rightarrow> (jsstring \<times> 'd) list" where
  "run_query get cs docs =
     (let matched = filter (\<lambda>(i, d). list_all (holds get d) cs) docs
      in case order_fields cs of
           [] \<Rightarrow> matched
         | f # _ \<Rightarrow> sort_key (\<lambda>(i, d). order_key (get f d)) matched)"

text \<open>\<open>getDocs(query(collection(db, c), ...))\<close> on each of the two collections.\<close>

definition getDocs_residents ::
  "constraint list \<Rightarrow> world \<Rightarrow> (error + (jsstring \<times> resident_doc) list) \<times> world" where
  "getDocs_residents q w =
     (let w' = storage_call (GetDocs RESIDENTS q) w
      in case next_fault w of
           Some e \<Rightarrow> (Inl e, w')
         | None \<Rightarrow> (Inr (run_query resident_field q (residents w)), w'))"

definition getDocs_medicalRecords ::
  "constraint list \<Rightarrow> world \<Rightarrow> (error + (jsstring \<times> record_doc) list) \<times> world" where
  "getDocs_medicalRecords q w =
     (let w' = storage_call (GetDocs MEDICAL_RECORDS q) w
      in case next_fault w of
           Some e \<Rightarrow> (Inl e, w')
         | None \<Rightarrow> (Inr (run_query record_field q (medicalRecords w)), w'))"

text \<open>\<open>addDoc\<close>: the store chooses the identifier of the new document.\<close>

definition addDoc_residents :: "host \<Rightarrow> resident_doc \<Rightarrow> world \<Rightarrow> (error + jsstring) \<times> world" where
  "addDoc_residents h d w =
     (let w' = storage_call (AddDoc RESIDENTS) w
      in case next_fault w of
           Some e \<Rightarrow> (Inl e, w')
         | None \<Rightarrow>
             (Inr (autoId h (issued w)),
              w'\<lparr>residents := residents w @ [(autoId h (issued w), d)], issued := Suc (issued w)\<rparr>))"

definition addDoc_medicalRecords :: "host \<Rightarrow> record_doc \<Rightarrow> world \<Rightarrow> (error + jsstring) \<times> world" where
  "addDoc_medicalRecords h d w =
     (let w' = storage_call (AddDoc MEDICAL_RECORDS) w
      in case next_fault w of
           Some e \<Rightarrow> (Inl e, w')
         | None \<Rightarrow>
             (Inr (autoId h (issued w)),
              w'\<lparr>medicalRecords := medicalRecords w @ [(autoId h (issued w), d)],
                 issued := Suc (issued w)\<rparr>))"

text \<open>
  \<open>updateDoc(ref, updateData)\<close> overwrites the fields that \<open>updateData\<close> has and keeps the
  others; it fails with \<open>not-found\<close> when the document does not exist.
\<close>

definition apply_resident_update :: "resident_update \<Rightarrow> resident_doc \<Rightarrow> resident_doc" where
  "apply_resident_update u d =
     \<lparr> d_name = (case u_name u of Some v \<Rightarrow> v | None \<Rightarrow> d_name d),
       d_furigana = (case u_furigana u of Some v \<Rightarrow> v | None \<Rightarrow> d_furigana d),
       d_lastName = (case u_lastName u of Some v \<Rightarrow> v | None \<Rightarrow> d_lastName d),
       d_firstName = (case u_firstName u of Some v \<Rightarrow> v | None \<Rightarrow> d_firstName d),
       d_lastNameKana = (case u_lastNameKana u of Some v \<Rightarrow> v | None \<Rightarrow> d_lastNameKana d),
       d_firstNameKana = (case u_firstNameKana u of Some v \<Rightarrow> v | None \<Rightarrow> d_firstNameKana d),
       d_gender = (case u_gender u of Some v \<Rightarrow> v | None \<Rightarrow> d_gender d),
       d_birthDate = (case u_birthDate u of Some v \<Rightarrow> v | None \<Rightarrow> d_birthDate d),
       d_roomNumber = (case u_roomNumber u of Some v \<Rightarrow> v | None \<Rightarrow> d_roomNumber d),
       d_admissionDate = (case u_admissionDate u of Some v \<Rightarrow> v | None \<Rightarrow> d_admissionDate d),
       d_dischargeDate = (case u_dischargeDate u of Some v \<Rightarrow> v | None \<Rightarrow> d_dischargeDate d),
       d_medicalHistory = (case u_medicalHistory u of Some v \<Rightarrow> v | None \<Rightarrow> d_medicalHistory d),
       d_medications = (case u_medications u of Some v \<Rightarrow> v | None \<Rightarrow> d_medications d),
       d_careLevel = (case u_careLevel u of Some v \<Rightarrow> v | None \<Rightarrow> d_careLevel d),
       d_createdAt = d_createdAt d,
       d_updatedAt = (case u_updatedAt u of Some v \<Rightarrow> v | None \<Rightarrow> d_updatedAt d) \<rparr>"

definition apply_record_update :: "record_update \<Rightarrow> record_doc \<Rightarrow> record_doc" where
  "apply_record_update u d =
     \<lparr> md_residentId = md_residentId d,
       md_date = (case mu_date u of Some v \<Rightarrow> v | None \<Rightarrow> md_date d),
       md_record = (case mu_record u of Some v \<Rightarrow> v | None \<Rightarrow> md_record d),
       md_createdAt = md_createdAt d,
       md_updatedAt = (case mu_updatedAt u of Some v \<Rightarrow> v | None \<Rightarrow> md_updatedAt d) \<rparr>"

definition updateDoc_residents :: "jsstring \<Rightarrow> resident_update \<Rightarrow> world \<Rightarrow> (error + unit) \<times> world" where
  "updateDoc_residents docId u w =
     (let w' = storage_call (UpdateDoc RESIDENTS docId) w
      in case next_fault w of
           Some e \<Rightarrow> (Inl e, w')
         | None \<Rightarrow>
             if docId \<notin> set (map fst (residents w)) then (Inl (FirebaseError NotFound), w')
             else (Inr (),
                   w'\<lparr>residents :=
                        map (\<lambda>(i, d). if i = docId then (i, apply_resident_update u d) else (i, d))
                          (residents w)\<rparr>))"

definition updateDoc_medicalRecords :: "jsstring \<Rightarrow> record_update \<Rightarrow> world \<Rightarrow> (error + unit) \<times> world" where
  "updateDoc_medicalRecords docId u w =
     (let w' = storage_call (UpdateDoc MEDICAL_RECORDS docId) w
      in case next_fault w of
           Some e \<Rightarrow> (Inl e, w')
         | None \<Rightarrow>
             if docId \<notin> set (map fst (medicalRecords w)) then (Inl (FirebaseError NotFound), w')
             else (Inr (),
                   w'\<lparr>medicalRecords :=
                        map (\<lambda>(i, d). if i = docId then (i, apply_record_update u d) else (i, d))
                          (medicalRecords w)\<rparr>))"

section \<open>JavaScript arrays and maps\<close>

text \<open>
  \<open>Array.prototype.sort(cmp)\<close> is stable and puts \<open>a\<close> before \<open>b\<close> when
  \<open>cmp(a, b) \<le> 0\<close>: insertion from the right end of the array, each element placed
  before the first element it does not come after.
\<close>

fun insert_by :: "('a \<Rightarrow> 'a \<Rightarrow> int) \<Rightarrow> 'a \<Rightarrow> 'a list \<Rightarrow> 'a list" where
  "insert_by cmp x [] = [x]"
| "insert_by cmp x (y # ys) = (if cmp x y \<le> 0 then x # y # ys else y # insert_by cmp x ys)"

definition js_sort :: "('a \<Rightarrow> 'a \<Rightarrow> int) \<Rightarrow> 'a list \<Rightarrow> 'a list" where
  "js_sort cmp xs = foldr (insert_by cmp) xs []"

text \<open>
  A \<open>Map\<close> keeps its keys in the order of their first insertion; \<open>map.set(k, v)\<close> on a key
  that is present replaces the value in place.
\<close>

fun map_set :: "'k \<Rightarrow> 'v \<Rightarrow> ('k \<times> 'v) list \<Rightarrow> ('k \<times> 'v) list" where
  "map_set k v [] = [(k, v)]"
| "map_set k v ((k', v') # m) = (if k = k' then (k, v) # m else (k', v') # map_set k v m)"

definition map_values :: "('k \<times> 'v) list \<Rightarrow> 'v list" where
  "map_values m = map snd m"

text \<open>
  \<open>Promise.all\<close> rejects when one of the promises rejects and otherwise gives all the
  values; of several rejections the model reports the first of the array.
\<close>

fun Promise_all :: "(error + 'a) list \<Rightarrow> error + 'a list" where
  "Promise_all [] = Inr []"
| "Promise_all (Inl e # rs) = Inl e"
| "Promise_all (Inr x # rs) = (case Promise_all rs of Inl e \<Rightarrow> Inl e | Inr xs \<Rightarrow> Inr (x # xs))"

section \<open>Resident repository\<close>

definition convertResidentData :: "jsstring \<Rightarrow> resident_doc \<Rightarrow> Resident" where
  "convertResidentData docId data =
     (let name = d_name data; furigana = d_furigana data
      in \<lparr> r_id = docId,
           r_name = name,
           r_furigana = furigana,
           r_lastName = str_or (d_lastName data) (part_or_empty (split SPACE name) 0),
           r_firstName = str_or (d_firstName data) (part_or_empty (split SPACE name) 1),
           r_lastNameKana = str_or (d_lastNameKana data) (part_or_empty (split SPACE furigana) 0),
           r_firstNameKana = str_or (d_firstNameKana data) (part_or_empty (split SPACE furigana) 1),
           r_gender = d_gender data,
           r_birthDate = toDate (d_birthDate data),
           r_roomNumber = d_roomNumber data,
           r_admissionDate = toDate (d_admissionDate data),
           r_dischargeDate = map_option toDate (d_dischargeDate data),
           r_medicalHistory = d_medicalHistory data,
           r_medications = d_medications data,
           r_careLevel = d_careLevel data,
           r_createdAt = toDate (d_createdAt data),
           r_updatedAt = toDate (d_updatedAt data) \<rparr>)"

text \<open>
  The calls to \<open>logger\<close> are left out: they do not touch the store or the result. A
  \<open>catch\<close> that logs and rethrows passes the error on unchanged.
\<close>

definition getAll :: "world \<Rightarrow> (error + Resident list) \<times> world" where
  "getAll w =
     (case getDocs_residents [OrderBy ''name''] w of
        (Inl e, w') \<Rightarrow> (Inl e, w')
      | (Inr docs, w') \<Rightarrow> (Inr (map (\<lambda>(i, d). convertResidentData i d) docs), w'))"

text \<open>\<open>Timestamp.fromDate(new Date(s))\<close>.\<close>

definition toTimestamp :: "host \<Rightarrow> jsstring \<Rightarrow> error + timestamp" where
  "toTimestamp h s = Timestamp_fromDate h (new_Date h s)"

text \<open>
  \<open>s ? Timestamp.fromDate(new Date(s)) : null\<close>, where \<open>undefined\<close> and the empty string
  are falsy.
\<close>

definition dischargeTimestamp :: "host \<Rightarrow> jsstring option \<Rightarrow> error + timestamp option" where
  "dischargeTimestamp h s =
     (case s of
        None \<Rightarrow> Inr None
      | Some t \<Rightarrow>
          if t = [] then Inr None
          else (case toTimestamp h t of Inl e \<Rightarrow> Inl e | Inr ts \<Rightarrow> Inr (Some ts)))"

text \<open>
  \<open>residentService.create\<close>. The fields of the new document are evaluated in the order
  of the object literal. \<open>addDoc\<close> refuses a field whose value is \<open>undefined\<close> with
  \<open>invalid-argument\<close> before anything is sent to the store; only \<open>careLevel\<close> can be
  \<open>undefined\<close> here.
\<close>

definition residentService_create ::
  "host \<Rightarrow> ResidentFormData \<Rightarrow> world \<Rightarrow> (error + jsstring) \<times> world" where
  "residentService_create h data w =
     (let now = clock w;
          nameParts = split SPACE (f_name data);
          furiganaParts = split SPACE (f_furigana data)
      in case toTimestamp h (f_birthDate data) of
           Inl e \<Rightarrow> (Inl e, w)
         | Inr birth \<Rightarrow>
       (case toTimestamp h (f_admissionDate data) of
           Inl e \<Rightarrow> (Inl e, w)
         | Inr admission \<Rightarrow>
       (case dischargeTimestamp h (f_dischargeDate data) of
           Inl e \<Rightarrow> (Inl e, w)
         | Inr discharge \<Rightarrow>
       (case f_careLevel data of
           None \<Rightarrow> (Inl (FirebaseError InvalidArgument), w)
         | Some level \<Rightarrow>
             addDoc_residents h
               \<lparr> d_name = f_name data,
                 d_furigana = f_furigana data,
                 d_lastName = part_or_empty nameParts 0,
                 d_firstName = part_or_empty nameParts 1,
                 d_lastNameKana = part_or_empty furiganaParts 0,
                 d_firstNameKana = part_or_empty furiganaParts 1,
                 d_gender = f_gender data,
                 d_birthDate = birth,
                 d_roomNumber = f_roomNumber data,
                 d_admissionDate = admission,
                 d_dischargeDate = discharge,
                 d_medicalHistory = f_medicalHistory data,
                 d_medications = f_medications data,
                 d_careLevel = level,
                 d_createdAt = now,
                 d_updatedAt = now \<rparr> w))))"

text \<open>The optional conversion \<open>if (s !== undefined) ... = Timestamp.fromDate(new Date(s))\<close>.\<close>

definition optTimestamp :: "host \<Rightarrow> jsstring option \<Rightarrow> error + timestamp option" where
  "optTimestamp h s =
     (case s of
        None \<Rightarrow> Inr None
      | Some t \<Rightarrow> (case toTimestamp h t of Inl e \<Rightarrow> Inl e | Inr ts \<Rightarrow> Inr (Some ts)))"

definition optDischarge :: "host \<Rightarrow> jsstring option \<Rightarrow> error + timestamp option option" where
  "optDischarge h s =
     (case s of
        None \<Rightarrow> Inr None
      | Some t \<Rightarrow>
          if t = [] then Inr (Some None)
          else (case toTimestamp h t of Inl e \<Rightarrow> Inl e | Inr ts \<Rightarrow> Inr (Some (Some ts))))"

text \<open>The \<open>updateData\<close> object that \<open>residentService.update\<close> builds.\<close>

definition resident_updateData ::
  "host \<Rightarrow> timestamp \<Rightarrow> PartialResidentFormData \<Rightarrow> error + resident_update" where
  "resident_updateData h now data =
     (case optTimestamp h (p_birthDate data) of
        Inl e \<Rightarrow> Inl e
      | Inr birth \<Rightarrow>
     (case optTimestamp h (p_admissionDate data) of
        Inl e \<Rightarrow> Inl e
      | Inr admission \<Rightarrow>
     (case optDischarge h (p_dischargeDate data) of
        Inl e \<Rightarrow> Inl e
      | Inr discharge \<Rightarrow>
          Inr \<lparr> u_name = p_name data,
                u_furigana = p_furigana data,
                u_lastName = map_option (\<lambda>n. part_or_empty (split SPACE n) 0) (p_name data),
                u_firstName = map_option (\<lambda>n. part_or_empty (split SPACE n) 1) (p_name data),
                u_lastNameKana = map_option (\<lambda>n. part_or_empty (split SPACE n) 0) (p_furigana data),
                u_firstNameKana = map_option (\<lambda>n. part_or_empty (split SPACE n) 1) (p_furigana data),
                u_gender = p_gender data,
                u_birthDate = birth,
                u_roomNumber = p_roomNumber data,
                u_admissionDate = admission,
                u_dischargeDate = discharge,
                u_medicalHistory = p_medicalHistory data,
                u_medications = p_medications data,
                u_careLevel = p_careLevel data,
                u_updatedAt = Some now \<rparr>)))"

definition residentService_update ::
  "host \<Rightarrow> jsstring \<Rightarrow> PartialResidentFormData \<Rightarrow> world \<Rightarrow> (error + unit) \<times> world" where
  "residentService_update h docId data w =
     (case resident_updateData h (clock w) data of
        Inl e \<Rightarrow> (Inl e, w)
      | Inr updateData \<Rightarrow> updateDoc_residents docId updateData w)"

text \<open>
  \<open>queries.map(q => getDocs(q))\<close> starts every query, in the order of the array, whether
  or not an earlier one fails.
\<close>

fun getDocs_each ::
  "constraint list list \<Rightarrow> world \<Rightarrow> (error + (jsstring \<times> resident_doc) list) list \<times> world" where
  "getDocs_each [] w = ([], w)"
| "getDocs_each (q # qs) w =
     (case getDocs_residents q w of
        (r, w') \<Rightarrow> (case getDocs_each qs w' of (rs, w'') \<Rightarrow> (r # rs, w'')))"

definition searchByName :: "host \<Rightarrow> jsstring \<Rightarrow> world \<Rightarrow> (error + Resident list) \<times> world" where
  "searchByName h name w =
     (let searchTerm = trim name
      in if searchTerm = [] then (Inr [], w)
         else
           let katakanaSearch = convertHiraganaToKatakana searchTerm;
               queries =
                 [[Where ''name'' GE (VStr searchTerm),
                   Where ''name'' LE (VStr (searchTerm @ [0xF8FF]))],
                  [Where ''lastName'' GE (VStr searchTerm),
                   Where ''lastName'' LE (VStr (searchTerm @ [0xF8FF]))],
                  [Where ''firstName'' GE (VStr searchTerm),
                   Where ''firstName'' LE (VStr (searchTerm @ [0xF8FF]))],
                  [Where ''furigana'' GE (VStr katakanaSearch),
                   Where ''furigana'' LE (VStr (katakanaSearch @ [0xF8FF]))],
                  [Where ''lastNameKana'' GE (VStr katakanaSearch),
                   Where ''lastNameKana'' LE (VStr (katakanaSearch @ [0xF8FF]))],
                  [Where ''firstNameKana'' GE (VStr katakanaSearch),
                   Where ''firstNameKana'' LE (VStr (katakanaSearch @ [0xF8FF]))]]
           in case getDocs_each queries w of
                (results, w') \<Rightarrow>
                  (case Promise_all results of
                     Inl e \<Rightarrow> (Inl e, w')
                   | Inr snapshots \<Rightarrow>
                       let allResidents =
                             foldl (\<lambda>m (i, d). map_set (r_id (convertResidentData i d))
                                                  (convertResidentData i d) m)
                               [] (concat snapshots)
                       in (Inr (js_sort (\<lambda>a b. localeCompare h (r_name a) (r_name b))
                                  (map_values allResidents)), w')))"

definition getByCareLevel :: "nat \<Rightarrow> world \<Rightarrow> (error + Resident list) \<times> world" where
  "getByCareLevel careLevel w =
     (case getDocs_residents [Where ''careLevel'' EQ (VNum careLevel), OrderBy ''name''] w of
        (Inl e, w') \<Rightarrow> (Inl e, w')
      | (Inr docs, w') \<Rightarrow> (Inr (map (\<lambda>(i, d). convertResidentData i d) docs), w'))"

definition getByMedication :: "jsstring \<Rightarrow> world \<Rightarrow> (error + Resident list) \<times> world" where
  "getByMedication medication w =
     (let searchTerm = trim medication
      in if searchTerm = [] then (Inr [], w)
         else
           case getDocs_residents
                  [Where ''medications'' ARRAY_CONTAINS (VStr searchTerm), OrderBy ''name''] w of
             (Inl e, w') \<Rightarrow> (Inl e, w')
           | (Inr docs, w') \<Rightarrow> (Inr (map (\<lambda>(i, d). convertResidentData i d) docs), w'))"

section \<open>Medical record repository\<close>

definition convertMedicalRecordData :: "jsstring \<Rightarrow> record_doc \<Rightarrow> MedicalRecord" where
  "convertMedicalRecordData docId data =
     \<lparr> m_id = docId,
       m_residentId = md_residentId data,
       m_date = toDate (md_date data),
       m_record = md_record data,
       m_createdAt = toDate (md_createdAt data),
       m_updatedAt = toDate (md_updatedAt data) \<rparr>"

text \<open>
  \<open>dayjs(x).valueOf() - dayjs(y).valueOf()\<close>; with an Invalid Date the difference is
  \<open>NaN\<close>, which \<open>sort\<close> takes as 0.
\<close>

definition valueOf_diff :: "jsdate \<Rightarrow> jsdate \<Rightarrow> int" where
  "valueOf_diff x y = (case (x, y) of (Some a, Some b) \<Rightarrow> a - b | _ \<Rightarrow> 0)"

definition getByResidentId :: "jsstring \<Rightarrow> world \<Rightarrow> (error + MedicalRecord list) \<times> world" where
  "getByResidentId residentId w =
     (case getDocs_medicalRecords [Where ''residentId'' EQ (VStr residentId)] w of
        (Inl e, w') \<Rightarrow> (Inr [], w')
      | (Inr docs, w') \<Rightarrow>
          (Inr (js_sort (\<lambda>a b. valueOf_diff (m_date b) (m_date a))
                  (map (\<lambda>(i, d). convertMedicalRecordData i d) docs)), w'))"

definition checkExistingRecord ::
  "host \<Rightarrow> jsstring \<Rightarrow> jsstring \<Rightarrow> world \<Rightarrow> (error + MedicalRecord option) \<times> world" where
  "checkExistingRecord h residentId date w =
     (let targetDate = format h YYYY_MM_DD (dayjs h date)
      in case getDocs_medicalRecords [Where ''residentId'' EQ (VStr residentId)] w of
           (Inl e, w') \<Rightarrow> (Inr None, w')
         | (Inr docs, w') \<Rightarrow>
             (Inr (map_option (\<lambda>(i, d). convertMedicalRecordData i d)
                     (find (\<lambda>(i, d). format h YYYY_MM_DD (toDate (md_date d)) = targetDate) docs)),
              w'))"

text \<open>The text that follows the date in the message of the error \<open>create\<close> throws.\<close>

definition already_exists_message :: jsstring where
  "already_exists_message =
     [0x306E, 0x8A3A, 0x7642, 0x9332, 0x306F, 0x65E2, 0x306B, 0x5B58, 0x5728, 0x3057, 0x307E,
      0x3059, 0x3002, 0x65E2, 0x5B58, 0x306E, 0x8A18, 0x9332, 0x3092, 0x7DE8, 0x96C6, 0x3057,
      0x3066, 0x304F, 0x3060, 0x3055, 0x3044, 0x3002]"

definition medicalRecordService_create ::
  "host \<Rightarrow> jsstring \<Rightarrow> MedicalRecordFormData \<Rightarrow> world \<Rightarrow> (error + jsstring) \<times> world" where
  "medicalRecordService_create h residentId data w =
     (case checkExistingRecord h residentId (mf_date data) w of
        (Inl e, w') \<Rightarrow> (Inl e, w')
      | (Inr (Some existingRecord), w') \<Rightarrow>
          (Inl (Error (format h YYYY_nen_MM_gatsu_DD_nichi (dayjs h (mf_date data))
                        @ already_exists_message)), w')
      | (Inr None, w') \<Rightarrow>
          (let now = clock w'
           in case toTimestamp h (mf_date data) of
                Inl e \<Rightarrow> (Inl e, w')
              | Inr date \<Rightarrow>
                  addDoc_medicalRecords h
                    \<lparr> md_residentId = residentId,
                      md_date = date,
                      md_record = mf_record data,
                      md_createdAt = now,
                      md_updatedAt = now \<rparr> w'))"

definition medicalRecordService_update ::
  "host \<Rightarrow> jsstring \<Rightarrow> PartialMedicalRecordFormData \<Rightarrow> world \<Rightarrow> (error + unit) \<times> world" where
  "medicalRecordService_update h docId data w =
     (case optTimestamp h (mp_date data) of
        Inl e \<Rightarrow> (Inl e, w)
      | Inr date \<Rightarrow>
          updateDoc_medicalRecords docId
            \<lparr> mu_date = date, mu_record = mp_record data, mu_updatedAt = Some (clock w) \<rparr> w)"

section \<open>A host for worked examples\<close>

text \<open>
  The general theorems below hold for every host. The worked examples run on one host:
  a time zone at a fixed offset from UTC (in minutes, 540 for Japan), and date strings of
  the form \<open>YYYY-MM-DD\<close> naming a day of the calendar, which is what the date fields of
  the forms produce. On such a string \<open>new Date\<close> gives midnight UTC and \<open>dayjs\<close>
  gives midnight local time; any other string is taken as an Invalid Date here.
\<close>

definition days_from_civil :: "int \<Rightarrow> int \<Rightarrow> int \<Rightarrow> int" where
  "days_from_civil y m d =
     (let y' = (if m \<le> 2 then y - 1 else y);
          era = y' div 400;
          yoe = y' - era * 400;
          doy = (153 * (if m > 2 then m - 3 else m + 9) + 2) div 5 + d - 1;
          doe = yoe * 365 + yoe div 4 - yoe div 100 + doy
      in era * 146097 + doe - 719468)"

definition civil_from_days :: "int \<Rightarrow> int \<times> int \<times> int" where
  "civil_from_days z =
     (let z' = z + 719468;
          era = z' div 146097;
          doe = z' - era * 146097;
          yoe = (doe - doe div 1460 + doe div 36524 - doe div 146096) div 365;
          doy = doe - (365 * yoe + yoe div 4 - yoe div 100);
          mp = (5 * doy + 2) div 153;
          d = doy - (153 * mp + 2) div 5 + 1;
          m = (if mp < 10 then mp + 3 else mp - 9)
      in (if m \<le> 2 then yoe + era * 400 + 1 else yoe + era * 400, m, d))"

definition days_in_month :: "int \<Rightarrow> int \<Rightarrow> int" where
  "days_in_month y m =
     (if m = 2 then (if y mod 4 = 0 \<and> (y mod 100 \<noteq> 0 \<or> y mod 400 = 0) then 29 else 28)
      else if m = 4 \<or> m = 6 \<or> m = 9 \<or> m = 11 then 30 else 31)"

definition is_digit :: "jschar \<Rightarrow> bool" where
  "is_digit c \<longleftrightarrow> 0x0030 \<le> c \<and> c \<le> 0x0039"

definition digit_value :: "jschar \<Rightarrow> int" where
  "digit_value c = uint c - 48"

definition digit_char :: "int \<Rightarrow> jschar" where
  "digit_char n = word_of_int (48 + n mod 10)"

definition parse_ymd :: "jsstring \<Rightarrow> (int \<times> int \<times> int) option" where
  "parse_ymd s =
     (if length s = 10 \<and> list_all is_digit (take 4 s) \<and> s ! 4 = 0x002D \<and>
         list_all is_digit (take 2 (drop 5 s)) \<and> s ! 7 = 0x002D \<and>
         list_all is_digit (drop 8 s)
      then
        let y = digit_value (s ! 0) * 1000 + digit_value (s ! 1) * 100 +
                digit_value (s ! 2) * 10 + digit_value (s ! 3);
            m = digit_value (s ! 5) * 10 + digit_value (s ! 6);
            d = digit_value (s ! 8) * 10 + digit_value (s ! 9)
        in if 1 \<le> m \<and> m \<le> 12 \<and> 1 \<le> d \<and> d \<le> days_in_month y m then Some (y, m, d) else None
      else None)"

definition four_digits :: "int \<Rightarrow> jsstring" where
  "four_digits n =
     [digit_char (n div 1000), digit_char (n div 100), digit_char (n div 10), digit_char n]"

definition two_digits :: "int \<Rightarrow> jsstring" where
  "two_digits n = [digit_char (n div 10), digit_char n]"

definition format_civil :: "date_format \<Rightarrow> int \<times> int \<times> int \<Rightarrow> jsstring" where
  "format_civil f ymd =
     (case ymd of (y, m, d) \<Rightarrow>
        (case f of
           YYYY_MM_DD \<Rightarrow> four_digits y @ [0x002D] @ two_digits m @ [0x002D] @ two_digits d
         | YYYY_nen_MM_gatsu_DD_nichi \<Rightarrow>
             four_digits y @ [0x5E74] @ two_digits m @ [0x6708] @ two_digits d @ [0x65E5]))"

definition invalid_date_text :: jsstring where
  "invalid_date_text =
     [0x0049, 0x006E, 0x0076, 0x0061, 0x006C, 0x0069, 0x0064, 0x0020, 0x0044, 0x0061, 0x0074,
      0x0065]"

text \<open>
  A collation for the examples: letters of the Latin alphabet are compared without
  regard to case first, as the collations of \<open>localeCompare\<close> do, so that \<open>a\<close> sorts
  before \<open>B\<close>; strings equal up to case are then told apart with the lower case first.
\<close>

definition fold_case :: "jschar \<Rightarrow> jschar" where
  "fold_case c = (if 0x0041 \<le> c \<and> c \<le> 0x005A then c + 0x20 else c)"

definition collate :: "jsstring \<Rightarrow> jsstring \<Rightarrow> int" where
  "collate a b =
     (if map fold_case a < map fold_case b then - 1
      else if map fold_case b < map fold_case a then 1
      else if a = b then 0
      else if b < a then - 1 else 1)"

definition fixed_offset_host :: "int \<Rightarrow> host" where
  "fixed_offset_host tz =
     \<lparr> new_Date = (\<lambda>s. map_option (\<lambda>(y, m, d). days_from_civil y m d * 86400000) (parse_ymd s)),
       dayjs = (\<lambda>s. map_option (\<lambda>(y, m, d). days_from_civil y m d * 86400000 - tz * 60000)
                      (parse_ymd s)),
       format = (\<lambda>f d. case d of
                          None \<Rightarrow> invalid_date_text
                        | Some t \<Rightarrow> format_civil f (civil_from_days ((t + tz * 60000) div 86400000))),
       Timestamp_fromDate = (\<lambda>d. case d of None \<Rightarrow> Inl HostError | Some t \<Rightarrow> Inr t),
       localeCompare = collate,
       autoId = (\<lambda>n. replicate (Suc n) 0x0061) \<rparr>"

definition jst_host :: host where
  "jst_host = fixed_offset_host 540"

section \<open>Worked examples: inputs\<close>

definition date_2024_03_10 :: jsstring where
  "date_2024_03_10 = [0x32, 0x30, 0x32, 0x34, 0x2D, 0x30, 0x33, 0x2D, 0x31, 0x30]"

definition date_2024_03_11 :: jsstring where
  "date_2024_03_11 = [0x32, 0x30, 0x32, 0x34, 0x2D, 0x30, 0x33, 0x2D, 0x31, 0x31]"

definition resident_r1 :: jsstring where
  "resident_r1 = [0x72, 0x31]"

definition note_text :: jsstring where
  "note_text = [0x6E, 0x6F, 0x74, 0x65]"

definition empty_world :: world where
  "empty_world =
     \<lparr> residents = [], medicalRecords = [], calls = [], faults = [],
       clock = 1710050000000, issued = 0 \<rparr>"

text \<open>
  One record of resident \<open>r1\<close> for 10 March 2024, as \<open>create\<close> stores it for the date
  string \<open>2024-03-10\<close> (midnight UTC, 1710028800000 ms).
\<close>

definition march10_world :: world where
  "march10_world =
     \<lparr> residents = [],
       medicalRecords =
         [([0x61], \<lparr> md_residentId = resident_r1, md_date = 1710028800000, md_record = note_text,
                     md_createdAt = 1710040000000, md_updatedAt = 1710040000000 \<rparr>)],
       calls = [], faults = [], clock = 1710050000000, issued = 1 \<rparr>"

text \<open>The same world during an outage of the store that fails the next call.\<close>

definition outage_world :: world where
  "outage_world = march10_world\<lparr>faults := [Some (FirebaseError Unavailable)]\<rparr>"

text \<open>Two records of resident \<open>r1\<close>, for 10 and 11 March 2024.\<close>

definition two_day_world :: world where
  "two_day_world =
     \<lparr> residents = [],
       medicalRecords =
         [([0x61], \<lparr> md_residentId = resident_r1, md_date = 1710028800000, md_record = note_text,
                     md_createdAt = 1710040000000, md_updatedAt = 1710040000000 \<rparr>),
          ([0x61, 0x61], \<lparr> md_residentId = resident_r1, md_date = 1710115200000,
                           md_record = note_text,
                           md_createdAt = 1710120000000, md_updatedAt = 1710120000000 \<rparr>)],
       calls = [], faults = [], clock = 1710130000000, issued = 2 \<rparr>"

text \<open>The registration form of the spec's example, with the names given as parameters.\<close>

definition registration_form :: "jsstring \<Rightarrow> jsstring \<Rightarrow> ResidentFormData" where
  "registration_form name furigana =
     \<lparr> f_name = name, f_furigana = furigana, f_gender = Dansei,
       f_birthDate = [0x31, 0x39, 0x34, 0x30, 0x2D, 0x30, 0x31, 0x2D, 0x30, 0x32],
       f_roomNumber = [0x31, 0x30, 0x31],
       f_admissionDate = date_2024_03_10, f_dischargeDate = None,
       f_medicalHistory = [], f_medications = [], f_careLevel = Some 3 \<rparr>"

definition yamada_taro :: jsstring where
  "yamada_taro = [0x5C71, 0x7530, 0x0020, 0x592A, 0x90CE]"

definition yamada_taro_kana :: jsstring where
  "yamada_taro_kana = [0x30E4, 0x30DE, 0x30C0, 0x0020, 0x30BF, 0x30ED, 0x30A6]"

text \<open>The partial input \<open>{ roomNumber: r }\<close>.\<close>

definition only_roomNumber :: "jsstring \<Rightarrow> PartialResidentFormData" where
  "only_roomNumber r =
     \<lparr> p_name = None, p_furigana = None, p_gender = None, p_birthDate = None,
       p_roomNumber = Some r, p_admissionDate = None, p_dischargeDate = None,
       p_medicalHistory = None, p_medications = None, p_careLevel = None \<rparr>"

text \<open>
  The split the specification words: the text before the first run of whitespace, and
  the text after that run.
\<close>

definition spec_split_first_whitespace_run :: "jsstring \<Rightarrow> jsstring \<times> jsstring" where
  "spec_split_first_whitespace_run s =
     (takeWhile (\<lambda>c. \<not> js_whitespace c) s,
      dropWhile js_whitespace (dropWhile (\<lambda>c. \<not> js_whitespace c) s))"

text \<open>
  The comparison that \<open>checkExistingRecord\<close> makes, written out: some stored record of
  the resident has an instant which, formatted as \<open>YYYY-MM-DD\<close> in the time zone of the
  host, gives the same text as \<open>dayjs(date).format('YYYY-MM-DD')\<close>. This is the code's own
  test, on the host's local days; it is not the statement that a record was stored for
  the same date string.
\<close>

definition found_by_day_check :: "host \<Rightarrow> jsstring \<Rightarrow> jsstring \<Rightarrow> world \<Rightarrow> bool" where
  "found_by_day_check h residentId date w \<longleftrightarrow>
     (\<exists>(i, d) \<in> set (medicalRecords w).
        md_residentId d = residentId \<and>
        format h YYYY_MM_DD (toDate (md_date d)) = format h YYYY_MM_DD (dayjs h date))"

text \<open>Two different records of one resident fall on the same calendar day.\<close>

definition same_day_duplicate :: "host \<Rightarrow> world \<Rightarrow> bool" where
  "same_day_duplicate h w \<longleftrightarrow>
     (\<exists>(i, d) \<in> set (medicalRecords w). \<exists>(j, e) \<in> set (medicalRecords w).
        i \<noteq> j \<and> md_residentId d = md_residentId e \<and>
        format h YYYY_MM_DD (toDate (md_date d)) = format h YYYY_MM_DD (toDate (md_date e)))"

text \<open>
  The world after the resident of the example has been registered on the example host:
  the document \<open>residentService.create\<close> stores for the registration form.
\<close>

definition yamada_doc :: resident_doc where
  "yamada_doc =
     \<lparr> d_name = yamada_taro, d_furigana = yamada_taro_kana,
       d_lastName = [0x5C71, 0x7530], d_firstName = [0x592A, 0x90CE],
       d_lastNameKana = [0x30E4, 0x30DE, 0x30C0], d_firstNameKana = [0x30BF, 0x30ED, 0x30A6],
       d_gender = Dansei, d_birthDate = - 946684800000, d_roomNumber = [0x31, 0x30, 0x31],
       d_admissionDate = 1710028800000, d_dischargeDate = None, d_medicalHistory = [],
       d_medications = [], d_careLevel = 3,
       d_createdAt = 1710050000000, d_updatedAt = 1710050000000 \<rparr>"

definition yamada_world :: world where
  "yamada_world =
     \<lparr> residents = [([0x0061], yamada_doc)], medicalRecords = [],
       calls = [AddDoc RESIDENTS], faults = [], clock = 1710050000000, issued = 1 \<rparr>"

definition room_305 :: jsstring where
  "room_305 = [0x33, 0x30, 0x35]"

section \<open>What a name search matches\<close>

text \<open>
  The two filters \<open>where(f, '>=', q)\<close> and \<open>where(f, '<=', q + U+F8FF)\<close> keep the values of
  the closed range from \<open>q\<close> to \<open>q\<close> followed by U+F8FF.
\<close>

definition in_closed_range :: "jsstring \<Rightarrow> jsstring \<Rightarrow> bool" where
  "in_closed_range q v \<longleftrightarrow>
     codepoints q \<le> codepoints v \<and> codepoints v \<le> codepoints (q @ [0xF8FF])"

text \<open>The range the specification words: half-open, without its upper end.\<close>

definition in_half_open_range :: "jsstring \<Rightarrow> jsstring \<Rightarrow> bool" where
  "in_half_open_range q v \<longleftrightarrow>
     codepoints q \<le> codepoints v \<and> codepoints v < codepoints (q @ [0xF8FF])"

definition range_query :: "string \<Rightarrow> jsstring \<Rightarrow> call" where
  "range_query f q = GetDocs RESIDENTS [Where f GE (VStr q), Where f LE (VStr (q @ [0xF8FF]))]"

text \<open>
  A stored resident is matched by a search term when one of the three name fields lies
  in the range of the term, or one of the three reading fields lies in the range of the
  term converted to katakana.
\<close>

definition matched_by :: "jsstring \<Rightarrow> resident_doc \<Rightarrow> bool" where
  "matched_by q d \<longleftrightarrow>
     in_closed_range q (d_name d) \<or> in_closed_range q (d_lastName d) \<or>
     in_closed_range q (d_firstName d) \<or>
     in_closed_range (convertHiraganaToKatakana q) (d_furigana d) \<or>
     in_closed_range (convertHiraganaToKatakana q) (d_lastNameKana d) \<or>
     in_closed_range (convertHiraganaToKatakana q) (d_firstNameKana d)"

definition matched_half_open :: "jsstring \<Rightarrow> resident_doc \<Rightarrow> bool" where
  "matched_half_open q d \<longleftrightarrow>
     in_half_open_range q (d_name d) \<or> in_half_open_range q (d_lastName d) \<or>
     in_half_open_range q (d_firstName d) \<or>
     in_half_open_range (convertHiraganaToKatakana q) (d_furigana d) \<or>
     in_half_open_range (convertHiraganaToKatakana q) (d_lastNameKana d) \<or>
     in_half_open_range (convertHiraganaToKatakana q) (d_firstNameKana d)"

text \<open>
  Worlds for the examples of the searches. \<open>search_world\<close> holds the resident of the
  registration example and a second one, Tanaka Hanako. \<open>sentinel_world\<close> holds one
  resident whose name is \<open>A\<close> followed by U+F8FF. \<open>case_world\<close> holds two residents named
  \<open>XB\<close> and \<open>Xa\<close>.
\<close>

definition tanaka_doc :: resident_doc where
  "tanaka_doc =
     yamada_doc
       \<lparr> d_name := [0x7530, 0x4E2D, 0x0020, 0x82B1, 0x5B50],
         d_furigana := [0x30BF, 0x30CA, 0x30AB, 0x0020, 0x30CF, 0x30CA, 0x30B3],
         d_lastName := [0x7530, 0x4E2D], d_firstName := [0x82B1, 0x5B50],
         d_lastNameKana := [0x30BF, 0x30CA, 0x30AB], d_firstNameKana := [0x30CF, 0x30CA, 0x30B3],
         d_gender := Josei \<rparr>"

definition search_world :: world where
  "search_world =
     \<lparr> residents = [([0x0061], yamada_doc), ([0x0061, 0x0061], tanaka_doc)], medicalRecords = [],
       calls = [], faults = [], clock = 1710050000000, issued = 2 \<rparr>"

definition latin_doc :: "jsstring \<Rightarrow> resident_doc" where
  "latin_doc n =
     yamada_doc
       \<lparr> d_name := n, d_furigana := [], d_lastName := n, d_firstName := [],
         d_lastNameKana := [], d_firstNameKana := [] \<rparr>"

definition sentinel_world :: world where
  "sentinel_world =
     \<lparr> residents = [([0x0061], latin_doc [0x0041, 0xF8FF])], medicalRecords = [],
       calls = [], faults = [], clock = 1710050000000, issued = 1 \<rparr>"

definition case_world :: world where
  "case_world =
     \<lparr> residents = [([0x0061], latin_doc [0x0058, 0x0042]),
                    ([0x0061, 0x0061], latin_doc [0x0058, 0x0061])], medicalRecords = [],
       calls = [], faults = [], clock = 1710050000000, issued = 2 \<rparr>"

text \<open>The example host moved five hours west of UTC.\<close>

definition utc_minus_5_host :: host where
  "utc_minus_5_host = fixed_offset_host (- 300)"

definition date_2024_03_09 :: jsstring where
  "date_2024_03_09 = [0x32, 0x30, 0x32, 0x34, 0x2D, 0x30, 0x33, 0x2D, 0x30, 0x39]"

text \<open>A partial input that has every field.\<close>

definition every_field :: PartialResidentFormData where
  "every_field =
     \<lparr> p_name = Some [0x7530, 0x4E2D, 0x0020, 0x82B1, 0x5B50],
       p_furigana = Some [0x30BF, 0x30CA, 0x30AB, 0x0020, 0x30CF, 0x30CA, 0x30B3],
       p_gender = Some Josei,
       p_birthDate = Some [0x31, 0x39, 0x33, 0x35, 0x2D, 0x30, 0x35, 0x2D, 0x30, 0x36],
       p_roomNumber = Some room_305,
       p_admissionDate = Some date_2024_03_11,
       p_dischargeDate = Some date_2024_03_11,
       p_medicalHistory = Some note_text,
       p_medications = Some [note_text],
       p_careLevel = Some 4 \<rparr>"

definition every_field_doc :: resident_doc where
  "every_field_doc =
     \<lparr> d_name = [0x7530, 0x4E2D, 0x0020, 0x82B1, 0x5B50],
       d_furigana = [0x30BF, 0x30CA, 0x30AB, 0x0020, 0x30CF, 0x30CA, 0x30B3],
       d_lastName = [0x7530, 0x4E2D], d_firstName = [0x82B1, 0x5B50],
       d_lastNameKana = [0x30BF, 0x30CA, 0x30AB], d_firstNameKana = [0x30CF, 0x30CA, 0x30B3],
       d_gender = Josei, d_birthDate = - 1093737600000, d_roomNumber = room_305,
       d_admissionDate = 1710115200000, d_dischargeDate = Some 1710115200000,
       d_medicalHistory = note_text, d_medications = [note_text], d_careLevel = 4,
       d_createdAt = 1710050000000, d_updatedAt = 1710060000000 \<rparr>"

definition resident_XB :: Resident where
  "resident_XB = convertResidentData [0x0061] (latin_doc [0x0058, 0x0042])"

definition resident_XA :: Resident where
  "resident_XA = convertResidentData [0x0061, 0x0061] (latin_doc [0x0058, 0x0061])"

section \<open>Properties of the script normalizer\<close>

lemma hiragana_shift:
  "hiragana_source c \<Longrightarrow> katakana_source (c + 0x60) \<and> c + 0x60 - 0x60 = c"
  by (simp add: hiragana_source_def katakana_source_def word_le_nat_alt unat_word_ariths)

lemma katakana_shift:
  "katakana_source c \<Longrightarrow> hiragana_source (c - 0x60) \<and> c - 0x60 + 0x60 = c"
  by (auto simp add: hiragana_source_def katakana_source_def word_le_nat_alt unat_sub_if')

lemma sources_disjoint: "hiragana_source c \<Longrightarrow> \<not> katakana_source c"
  by (simp add: hiragana_source_def katakana_source_def word_le_nat_alt)

lemma hiragana_block_not_katakana_source: "hiragana_block c \<Longrightarrow> \<not> katakana_source c"
  by (simp add: hiragana_block_def katakana_source_def word_le_nat_alt)

lemma katakana_block_not_hiragana_source: "katakana_block c \<Longrightarrow> \<not> hiragana_source c"
  by (simp add: katakana_block_def hiragana_source_def word_le_nat_alt)

lemma hiragana_source_in_block: "hiragana_source c \<Longrightarrow> hiragana_block c"
  by (simp add: hiragana_block_def hiragana_source_def word_le_nat_alt)

lemma katakana_source_in_block: "katakana_source c \<Longrightarrow> katakana_block c"
  by (simp add: katakana_block_def katakana_source_def word_le_nat_alt)

lemma back_to_hiragana:
  "\<not> katakana_source c \<Longrightarrow>
   (\<lambda>c. if katakana_source c then c - 0x60 else c) (if hiragana_source c then c + 0x60 else c) = c"
  using hiragana_shift [of c] by simp

lemma back_to_katakana:
  "\<not> hiragana_source c \<Longrightarrow>
   (\<lambda>c. if hiragana_source c then c + 0x60 else c) (if katakana_source c then c - 0x60 else c) = c"
  using katakana_shift [of c] by simp

lemma katakana_of_hiragana_string:
  "\<forall>c \<in> set s. \<not> katakana_source c \<Longrightarrow>
   convertKatakanaToHiragana (convertHiraganaToKatakana s) = s"
  unfolding convertKatakanaToHiragana_def convertHiraganaToKatakana_def
  by (induction s) (simp_all add: back_to_hiragana)

lemma hiragana_of_katakana_string:
  "\<forall>c \<in> set s. \<not> hiragana_source c \<Longrightarrow>
   convertHiraganaToKatakana (convertKatakanaToHiragana s) = s"
  unfolding convertKatakanaToHiragana_def convertHiraganaToKatakana_def
  by (induction s) (simp_all add: back_to_katakana)

lemma toKatakana_output: "c \<in> set (convertHiraganaToKatakana s) \<Longrightarrow> \<not> hiragana_source c"
  unfolding convertHiraganaToKatakana_def
  using hiragana_shift sources_disjoint by (auto split: if_splits)

lemma toHiragana_output: "c \<in> set (convertKatakanaToHiragana s) \<Longrightarrow> \<not> katakana_source c"
  unfolding convertKatakanaToHiragana_def
  using katakana_shift sources_disjoint by (auto split: if_splits)

lemma toKatakana_fixed:
  "\<forall>c \<in> set t. \<not> hiragana_source c \<Longrightarrow> convertHiraganaToKatakana t = t"
  unfolding convertHiraganaToKatakana_def by (induction t) simp_all

lemma toHiragana_fixed:
  "\<forall>c \<in> set t. \<not> katakana_source c \<Longrightarrow> convertKatakanaToHiragana t = t"
  unfolding convertKatakanaToHiragana_def by (induction t) simp_all

text \<open>
  Claim C4. A string made only of characters of the Hiragana block comes back unchanged
  from \<open>convertHiraganaToKatakana\<close> followed by \<open>convertKatakanaToHiragana\<close>, and a string made
  only of characters of the Katakana block comes back unchanged from the two conversions
  in the other order. Both conversions keep the length of every string and leave every
  character that lies outside both blocks as it is. Both are functions of the string
  alone, defined on every string.
\<close>

theorem normalizer_round_trip:
  "(list_all hiragana_block s \<longrightarrow>
      convertKatakanaToHiragana (convertHiraganaToKatakana s) = s) \<and>
   (list_all katakana_block t \<longrightarrow>
      convertHiraganaToKatakana (convertKatakanaToHiragana t) = t) \<and>
   length (convertHiraganaToKatakana u) = length u \<and>
   length (convertKatakanaToHiragana u) = length u \<and>
   (i < length u \<and> \<not> hiragana_block (u ! i) \<and> \<not> katakana_block (u ! i) \<longrightarrow>
      convertHiraganaToKatakana u ! i = u ! i \<and> convertKatakanaToHiragana u ! i = u ! i)"
proof -
  have "convertKatakanaToHiragana (convertHiraganaToKatakana s) = s" if "list_all hiragana_block s"
    using that hiragana_block_not_katakana_source
    by (intro katakana_of_hiragana_string) (auto simp: list_all_iff)
  moreover have "convertHiraganaToKatakana (convertKatakanaToHiragana t) = t"
    if "list_all katakana_block t"
    using that katakana_block_not_hiragana_source
    by (intro hiragana_of_katakana_string) (auto simp: list_all_iff)
  moreover have "convertHiraganaToKatakana u ! i = u ! i \<and> convertKatakanaToHiragana u ! i = u ! i"
    if "i < length u" "\<not> hiragana_block (u ! i)" "\<not> katakana_block (u ! i)"
    using that hiragana_source_in_block katakana_source_in_block
    by (auto simp: convertHiraganaToKatakana_def convertKatakanaToHiragana_def)
  ultimately show ?thesis
    by (simp add: convertHiraganaToKatakana_def convertKatakanaToHiragana_def)
qed

theorem normalizer_round_trip_witness:
  "list_all hiragana_block [0x305F, 0x306A, 0x304B, 0x309D] \<and>
   convertHiraganaToKatakana [0x305F, 0x306A, 0x304B, 0x309D] = [0x30BF, 0x30CA, 0x30AB, 0x309D] \<and>
   convertKatakanaToHiragana (convertHiraganaToKatakana [0x305F, 0x306A, 0x304B, 0x309D])
     = [0x305F, 0x306A, 0x304B, 0x309D] \<and>
   list_all katakana_block [0x30BF, 0x30CA, 0x30AB, 0x30FC] \<and>
   convertHiraganaToKatakana (convertKatakanaToHiragana [0x30BF, 0x30CA, 0x30AB, 0x30FC])
     = [0x30BF, 0x30CA, 0x30AB, 0x30FC] \<and>
   (1::nat) < length [0x305F, 0x0041 :: jschar] \<and>
   \<not> hiragana_block ([0x305F, 0x0041] ! 1) \<and> \<not> katakana_block ([0x305F, 0x0041] ! 1) \<and>
   convertHiraganaToKatakana [0x305F, 0x0041] ! 1 = 0x0041 \<and>
   convertKatakanaToHiragana [0x305F, 0x0041] ! 1 = 0x0041"
  using normalizer_round_trip [of "[0x305F, 0x306A, 0x304B, 0x309D]"
      "[0x30BF, 0x30CA, 0x30AB, 0x30FC]" "[0x305F, 0x0041]" 1]
  by (simp add: hiragana_block_def katakana_block_def convertHiraganaToKatakana_def
      hiragana_source_def)

text \<open>
  Claim C10. Each conversion is idempotent on every string, because its output holds no
  character of its own source range: none of U+3041..U+3096 after
  \<open>convertHiraganaToKatakana\<close>, none of U+30A1..U+30F6 after \<open>convertKatakanaToHiragana\<close>.
\<close>

theorem normalizer_idempotent:
  "convertHiraganaToKatakana (convertHiraganaToKatakana s) = convertHiraganaToKatakana s \<and>
   convertKatakanaToHiragana (convertKatakanaToHiragana s) = convertKatakanaToHiragana s \<and>
   list_all (\<lambda>c. \<not> (0x3041 \<le> c \<and> c \<le> 0x3096)) (convertHiraganaToKatakana s) \<and>
   list_all (\<lambda>c. \<not> (0x30A1 \<le> c \<and> c \<le> 0x30F6)) (convertKatakanaToHiragana s)"
proof -
  have k: "\<forall>c \<in> set (convertHiraganaToKatakana s). \<not> hiragana_source c"
    using toKatakana_output by blast
  have h: "\<forall>c \<in> set (convertKatakanaToHiragana s). \<not> katakana_source c"
    using toHiragana_output by blast
  note toKatakana_fixed [OF k] toHiragana_fixed [OF h]
  moreover have "list_all (\<lambda>c. \<not> (0x3041 \<le> c \<and> c \<le> 0x3096)) (convertHiraganaToKatakana s)"
    using k unfolding list_all_iff hiragana_source_def .
  moreover have "list_all (\<lambda>c. \<not> (0x30A1 \<le> c \<and> c \<le> 0x30F6)) (convertKatakanaToHiragana s)"
    using h unfolding list_all_iff katakana_source_def .
  ultimately show ?thesis
    by blast
qed

theorem normalizer_idempotent_witness:
  "convertHiraganaToKatakana (convertHiraganaToKatakana [0x305F, 0x30BF, 0x0041])
     = convertHiraganaToKatakana [0x305F, 0x30BF, 0x0041] \<and>
   convertHiraganaToKatakana [0x305F, 0x30BF, 0x0041] = [0x30BF, 0x30BF, 0x0041] \<and>
   convertKatakanaToHiragana (convertKatakanaToHiragana [0x305F, 0x30BF, 0x0041])
     = convertKatakanaToHiragana [0x305F, 0x30BF, 0x0041] \<and>
   convertKatakanaToHiragana [0x305F, 0x30BF, 0x0041] = [0x305F, 0x305F, 0x0041]"
  using normalizer_idempotent [of "[0x305F, 0x30BF, 0x0041]"]
  by (simp add: convertHiraganaToKatakana_def convertKatakanaToHiragana_def
      hiragana_source_def katakana_source_def)

section \<open>Blank queries\<close>

lemma trim_blank: "list_all js_whitespace q \<Longrightarrow> trim q = []"
proof -
  assume "list_all js_whitespace q"
  then have blank: "dropWhile js_whitespace q = []"
    by (simp add: list_all_iff)
  show ?thesis
    unfolding trim_def blank by simp
qed

text \<open>
  Claim C9. For a query that is empty or made of whitespace only, \<open>searchByName\<close> returns
  the empty list and \<open>getByMedication\<close> returns the empty list, and both leave the world
  as it was: in particular no call to the store is recorded.
\<close>

theorem blank_query_short_circuit:
  "list_all js_whitespace q \<Longrightarrow>
   searchByName h q w = (Inr [], w) \<and> getByMedication q w = (Inr [], w)"
  by (simp add: searchByName_def getByMedication_def trim_blank)

theorem blank_query_short_circuit_witness:
  "list_all js_whitespace [0x0020, 0x3000, 0x0020] \<and>
   searchByName jst_host [0x0020, 0x3000, 0x0020] march10_world = (Inr [], march10_world) \<and>
   getByMedication [0x0020, 0x3000, 0x0020] march10_world = (Inr [], march10_world) \<and>
   searchByName jst_host [] march10_world = (Inr [], march10_world) \<and>
   getByMedication [] march10_world = (Inr [], march10_world)"
  using blank_query_short_circuit [of "[0x0020, 0x3000, 0x0020]" jst_host march10_world]
    blank_query_short_circuit [of "[]" jst_host march10_world]
  by (simp add: js_whitespace_def)

section \<open>Name splitting\<close>

lemma split_parts:
  "split sep s = takeWhile (\<lambda>c. c \<noteq> sep) s #
     (case dropWhile (\<lambda>c. c \<noteq> sep) s of [] \<Rightarrow> [] | _ # r \<Rightarrow> split sep r)"
  by (induction s) (auto split: list.splits)

lemma split_first: "part_or_empty (split sep s) 0 = takeWhile (\<lambda>c. c \<noteq> sep) s"
  by (subst split_parts) (simp add: part_or_empty_def)

lemma split_second:
  "part_or_empty (split sep s) 1 =
     takeWhile (\<lambda>c. c \<noteq> sep) (drop 1 (dropWhile (\<lambda>c. c \<noteq> sep) s))"
proof (cases "dropWhile (\<lambda>c. c \<noteq> sep) s")
  case Nil
  have "split sep s = [takeWhile (\<lambda>c. c \<noteq> sep) s]"
    using split_parts [of sep s] unfolding Nil by simp
  then show ?thesis
    unfolding Nil by (simp add: part_or_empty_def)
next
  case (Cons a r)
  have "split sep s = takeWhile (\<lambda>c. c \<noteq> sep) s # split sep r"
    using split_parts [of sep s] unfolding Cons by simp
  moreover have "split sep r = takeWhile (\<lambda>c. c \<noteq> sep) r #
     (case dropWhile (\<lambda>c. c \<noteq> sep) r of [] \<Rightarrow> [] | _ # r' \<Rightarrow> split sep r')"
    by (rule split_parts)
  ultimately show ?thesis
    unfolding Cons by (simp add: part_or_empty_def)
qed

lemma split_second_no_separator: "sep \<notin> set s \<Longrightarrow> part_or_empty (split sep s) 1 = []"
proof -
  assume "sep \<notin> set s"
  then have none: "dropWhile (\<lambda>c. c \<noteq> sep) s = []"
    by auto
  show ?thesis
    unfolding split_second none by simp
qed

lemma split_first_no_separator: "sep \<notin> set s \<Longrightarrow> part_or_empty (split sep s) 0 = s"
  unfolding split_first by (induction s) auto

text \<open>
  Claim C8, as the code has it. \<open>residentService.create\<close> cuts the full name and the
  full reading at every single space U+0020: the stored last-name component is the text
  before the first space, and the stored first-name component is the text between the
  first space and the second one (up to the end when there is no second space). An input
  with no space gives the whole text as last-name component and an empty first-name
  component. For name \<open>Yamada Taro\<close> in kanji with one space, and its reading in katakana
  with one space, the four stored components are those of the specification's example.
\<close>

theorem create_name_split:
  assumes "residentService_create h data w = (Inr i, w')"
  shows "\<exists>d. residents w' = residents w @ [(i, d)] \<and>
           d_name d = f_name data \<and> d_furigana d = f_furigana data \<and>
           d_lastName d = takeWhile (\<lambda>c. c \<noteq> SPACE) (f_name data) \<and>
           d_firstName d =
             takeWhile (\<lambda>c. c \<noteq> SPACE) (drop 1 (dropWhile (\<lambda>c. c \<noteq> SPACE) (f_name data))) \<and>
           d_lastNameKana d = takeWhile (\<lambda>c. c \<noteq> SPACE) (f_furigana data) \<and>
           d_firstNameKana d =
             takeWhile (\<lambda>c. c \<noteq> SPACE) (drop 1 (dropWhile (\<lambda>c. c \<noteq> SPACE) (f_furigana data))) \<and>
           (SPACE \<notin> set (f_name data) \<longrightarrow> d_lastName d = f_name data \<and> d_firstName d = []) \<and>
           (SPACE \<notin> set (f_furigana data) \<longrightarrow>
              d_lastNameKana d = f_furigana data \<and> d_firstNameKana d = [])"
proof -
  from assms obtain d where d:
    "residents w' = residents w @ [(i, d)]"
    "d_name d = f_name data" "d_furigana d = f_furigana data"
    "d_lastName d = part_or_empty (split SPACE (f_name data)) 0"
    "d_firstName d = part_or_empty (split SPACE (f_name data)) 1"
    "d_lastNameKana d = part_or_empty (split SPACE (f_furigana data)) 0"
    "d_firstNameKana d = part_or_empty (split SPACE (f_furigana data)) 1"
    unfolding residentService_create_def addDoc_residents_def storage_call_def Let_def
    by (auto split: sum.splits option.splits)
  have "d_lastName d = takeWhile (\<lambda>c. c \<noteq> SPACE) (f_name data)"
    by (simp only: d split_first)
  moreover have "d_firstName d =
      takeWhile (\<lambda>c. c \<noteq> SPACE) (drop 1 (dropWhile (\<lambda>c. c \<noteq> SPACE) (f_name data)))"
    by (simp only: d split_second)
  moreover have "d_lastNameKana d = takeWhile (\<lambda>c. c \<noteq> SPACE) (f_furigana data)"
    by (simp only: d split_first)
  moreover have "d_firstNameKana d =
      takeWhile (\<lambda>c. c \<noteq> SPACE) (drop 1 (dropWhile (\<lambda>c. c \<noteq> SPACE) (f_furigana data)))"
    by (simp only: d split_second)
  moreover have "d_lastName d = f_name data \<and> d_firstName d = []"
    if "SPACE \<notin> set (f_name data)"
    using split_first_no_separator [OF that] split_second_no_separator [OF that]
    by (simp only: d)
  moreover have "d_lastNameKana d = f_furigana data \<and> d_firstNameKana d = []"
    if "SPACE \<notin> set (f_furigana data)"
    using split_first_no_separator [OF that] split_second_no_separator [OF that]
    by (simp only: d)
  ultimately show ?thesis
    using d(1,2,3) by blast
qed

theorem create_name_split_witness:
  "fst (residentService_create jst_host (registration_form yamada_taro yamada_taro_kana) empty_world)
     = Inr [0x0061] \<and>
   (\<exists>d. residents (snd (residentService_create jst_host
                          (registration_form yamada_taro yamada_taro_kana) empty_world))
          = [([0x0061], d)] \<and>
        d_lastName d = [0x5C71, 0x7530] \<and> d_firstName d = [0x592A, 0x90CE] \<and>
        d_lastNameKana d = [0x30E4, 0x30DE, 0x30C0] \<and> d_firstNameKana d = [0x30BF, 0x30ED, 0x30A6])"
proof -
  define W where
    "W = snd (residentService_create jst_host (registration_form yamada_taro yamada_taro_kana)
                empty_world)"
  have r: "fst (residentService_create jst_host (registration_form yamada_taro yamada_taro_kana)
                  empty_world) = Inr [0x0061]"
    by code_simp
  then have "residentService_create jst_host (registration_form yamada_taro yamada_taro_kana)
               empty_world = (Inr [0x0061], W)"
    unfolding W_def by (metis prod.collapse)
  from create_name_split [OF this] obtain d where d:
    "residents W = residents empty_world @ [([0x0061], d)]"
    "d_lastName d = takeWhile (\<lambda>c. c \<noteq> SPACE)
                      (f_name (registration_form yamada_taro yamada_taro_kana))"
    "d_firstName d = takeWhile (\<lambda>c. c \<noteq> SPACE) (drop 1 (dropWhile (\<lambda>c. c \<noteq> SPACE)
                      (f_name (registration_form yamada_taro yamada_taro_kana))))"
    "d_lastNameKana d = takeWhile (\<lambda>c. c \<noteq> SPACE)
                      (f_furigana (registration_form yamada_taro yamada_taro_kana))"
    "d_firstNameKana d = takeWhile (\<lambda>c. c \<noteq> SPACE) (drop 1 (dropWhile (\<lambda>c. c \<noteq> SPACE)
                      (f_furigana (registration_form yamada_taro yamada_taro_kana))))"
    by blast
  have "residents W = [([0x0061], d)]"
    using d(1) by (simp add: empty_world_def)
  moreover have "d_lastName d = [0x5C71, 0x7530]" "d_firstName d = [0x592A, 0x90CE]"
    unfolding d by (simp_all add: registration_form_def yamada_taro_def)
  moreover have "d_lastNameKana d = [0x30E4, 0x30DE, 0x30C0]"
    "d_firstNameKana d = [0x30BF, 0x30ED, 0x30A6]"
    unfolding d by (simp_all add: registration_form_def yamada_taro_kana_def)
  ultimately show ?thesis
    using r unfolding W_def by blast
qed

text \<open>
  The claim as the specification words it, a cut at the first run of whitespace, fails
  in two ways. For the name \<open>A B C\<close> the stored first-name component is \<open>B\<close>, where
  the text after the first run of whitespace is \<open>B C\<close>. For a name written with the
  ideographic space U+3000 nothing is cut: the stored last-name component is the whole
  name and the first-name component is empty, where the cut at whitespace gives the two
  words.
\<close>

theorem create_name_split_counterexample:
  "fst (residentService_create jst_host
          (registration_form [0x0041, 0x0020, 0x0042, 0x0020, 0x0043] yamada_taro_kana) empty_world)
     = Inr [0x0061] \<and>
   map (\<lambda>(i, d). (d_lastName d, d_firstName d))
     (residents (snd (residentService_create jst_host
          (registration_form [0x0041, 0x0020, 0x0042, 0x0020, 0x0043] yamada_taro_kana) empty_world)))
     = [([0x0041], [0x0042])] \<and>
   spec_split_first_whitespace_run [0x0041, 0x0020, 0x0042, 0x0020, 0x0043]
     = ([0x0041], [0x0042, 0x0020, 0x0043]) \<and>
   fst (residentService_create jst_host
          (registration_form [0x5C71, 0x7530, 0x3000, 0x592A, 0x90CE] yamada_taro_kana) empty_world)
     = Inr [0x0061] \<and>
   map (\<lambda>(i, d). (d_lastName d, d_firstName d))
     (residents (snd (residentService_create jst_host
          (registration_form [0x5C71, 0x7530, 0x3000, 0x592A, 0x90CE] yamada_taro_kana) empty_world)))
     = [([0x5C71, 0x7530, 0x3000, 0x592A, 0x90CE], [])] \<and>
   spec_split_first_whitespace_run [0x5C71, 0x7530, 0x3000, 0x592A, 0x90CE]
     = ([0x5C71, 0x7530], [0x592A, 0x90CE])"
  by code_simp

section \<open>Failures of the store in the read operations of the medical records\<close>

lemma never_rejects:
  "\<exists>rs. fst (getByResidentId rid v) = Inr rs" "\<exists>m. fst (checkExistingRecord h rid date v) = Inr m"
  unfolding getByResidentId_def checkExistingRecord_def getDocs_medicalRecords_def Let_def
  by (simp_all split: option.splits)

text \<open>
  Claim C6. When the store fails the query, \<open>getByResidentId\<close> returns the empty list
  and \<open>checkExistingRecord\<close> returns no record; neither ever passes an error to its
  caller. \<open>create\<close> then goes on exactly as when no record exists: it converts the date
  and adds the document, so with a store that answers the next call the new document is
  appended and its identifier returned, whatever records the resident already has.
\<close>

theorem read_failures_swallowed:
  assumes "next_fault w = Some e"
  shows
    "getByResidentId rid w =
       (Inr [], storage_call (GetDocs MEDICAL_RECORDS [Where ''residentId'' EQ (VStr rid)]) w) \<and>
     checkExistingRecord h rid date w =
       (Inr None, storage_call (GetDocs MEDICAL_RECORDS [Where ''residentId'' EQ (VStr rid)]) w) \<and>
     medicalRecordService_create h rid data w =
       (case toTimestamp h (mf_date data) of
          Inl e' \<Rightarrow>
            (Inl e', storage_call (GetDocs MEDICAL_RECORDS [Where ''residentId'' EQ (VStr rid)]) w)
        | Inr ts \<Rightarrow>
            addDoc_medicalRecords h
              \<lparr> md_residentId = rid, md_date = ts, md_record = mf_record data,
                md_createdAt = clock w, md_updatedAt = clock w \<rparr>
              (storage_call (GetDocs MEDICAL_RECORDS [Where ''residentId'' EQ (VStr rid)]) w)) \<and>
     (\<forall>ts. toTimestamp h (mf_date data) = Inr ts \<and>
           next_fault (storage_call (GetDocs MEDICAL_RECORDS [Where ''residentId'' EQ (VStr rid)]) w)
             = None \<longrightarrow>
        fst (medicalRecordService_create h rid data w) = Inr (autoId h (issued w)) \<and>
        medicalRecords (snd (medicalRecordService_create h rid data w)) =
          medicalRecords w @
            [(autoId h (issued w),
              \<lparr> md_residentId = rid, md_date = ts, md_record = mf_record data,
                md_createdAt = clock w, md_updatedAt = clock w \<rparr>)]) \<and>
     (\<exists>rs. fst (getByResidentId rid v) = Inr rs) \<and>
     (\<exists>m. fst (checkExistingRecord h rid date v) = Inr m)"
proof -
  let ?w1 = "storage_call (GetDocs MEDICAL_RECORDS [Where ''residentId'' EQ (VStr rid)]) w"
  have g: "getDocs_medicalRecords [Where ''residentId'' EQ (VStr rid)] w = (Inl e, ?w1)"
    using assms by (simp add: getDocs_medicalRecords_def)
  have a: "getByResidentId rid w = (Inr [], ?w1)"
    by (simp add: getByResidentId_def g)
  have b: "checkExistingRecord h rid date w = (Inr None, ?w1)" for date
    by (simp add: checkExistingRecord_def g)
  have w1: "clock ?w1 = clock w" "issued ?w1 = issued w" "medicalRecords ?w1 = medicalRecords w"
    by (simp_all add: storage_call_def)
  have c: "medicalRecordService_create h rid data w =
       (case toTimestamp h (mf_date data) of
          Inl e' \<Rightarrow> (Inl e', ?w1)
        | Inr ts \<Rightarrow>
            addDoc_medicalRecords h
              \<lparr> md_residentId = rid, md_date = ts, md_record = mf_record data,
                md_createdAt = clock w, md_updatedAt = clock w \<rparr> ?w1)"
    by (cases "toTimestamp h (mf_date data)") (simp_all add: medicalRecordService_create_def b w1 Let_def)
  have d: "fst (medicalRecordService_create h rid data w) = Inr (autoId h (issued w)) \<and>
        medicalRecords (snd (medicalRecordService_create h rid data w)) =
          medicalRecords w @
            [(autoId h (issued w),
              \<lparr> md_residentId = rid, md_date = ts, md_record = mf_record data,
                md_createdAt = clock w, md_updatedAt = clock w \<rparr>)]"
    if "toTimestamp h (mf_date data) = Inr ts" "next_fault ?w1 = None" for ts
    unfolding c using that by (simp add: addDoc_medicalRecords_def w1)
  show ?thesis
    using a b c d never_rejects by blast
qed


theorem read_failures_swallowed_witness:
  "next_fault outage_world = Some (FirebaseError Unavailable) \<and>
   map (\<lambda>(i, d). (md_residentId d, md_date d)) (medicalRecords outage_world)
     = [(resident_r1, 1710028800000)] \<and>
   fst (getByResidentId resident_r1 outage_world) = Inr [] \<and>
   fst (checkExistingRecord jst_host resident_r1 date_2024_03_10 outage_world) = Inr None \<and>
   fst (medicalRecordService_create jst_host resident_r1
          \<lparr>mf_date = date_2024_03_10, mf_record = note_text\<rparr> outage_world) = Inr [0x0061, 0x0061] \<and>
   map (\<lambda>(i, d). (md_residentId d, md_date d))
     (medicalRecords (snd (medicalRecordService_create jst_host resident_r1
          \<lparr>mf_date = date_2024_03_10, mf_record = note_text\<rparr> outage_world)))
     = [(resident_r1, 1710028800000), (resident_r1, 1710028800000)]"
proof -
  have nf: "next_fault outage_world = Some (FirebaseError Unavailable)"
    by (simp add: next_fault_def outage_world_def)
  have ts: "toTimestamp jst_host (mf_date \<lparr>mf_date = date_2024_03_10, mf_record = note_text\<rparr>)
              = Inr 1710028800000"
    by code_simp
  have nf2: "next_fault (storage_call
               (GetDocs MEDICAL_RECORDS [Where ''residentId'' EQ (VStr resident_r1)]) outage_world)
             = None"
    by (simp add: next_fault_def storage_call_def outage_world_def)
  have recs: "map (\<lambda>(i, d). (md_residentId d, md_date d)) (medicalRecords outage_world)
     = [(resident_r1, 1710028800000)]"
    by (simp add: outage_world_def march10_world_def)
  have i: "autoId jst_host (issued outage_world) = [0x0061, 0x0061]"
    by code_simp
  note T = read_failures_swallowed [OF nf, of resident_r1 jst_host date_2024_03_10
      "\<lparr>mf_date = date_2024_03_10, mf_record = note_text\<rparr>" outage_world]
  from T have "fst (getByResidentId resident_r1 outage_world) = Inr []"
    "fst (checkExistingRecord jst_host resident_r1 date_2024_03_10 outage_world) = Inr None"
    by simp_all
  moreover from T ts nf2 have
    "fst (medicalRecordService_create jst_host resident_r1
          \<lparr>mf_date = date_2024_03_10, mf_record = note_text\<rparr> outage_world)
       = Inr (autoId jst_host (issued outage_world))"
    "medicalRecords (snd (medicalRecordService_create jst_host resident_r1
          \<lparr>mf_date = date_2024_03_10, mf_record = note_text\<rparr> outage_world)) =
       medicalRecords outage_world @
         [(autoId jst_host (issued outage_world),
           \<lparr> md_residentId = resident_r1, md_date = 1710028800000,
             md_record = mf_record \<lparr>mf_date = date_2024_03_10, mf_record = note_text\<rparr>,
             md_createdAt = clock outage_world, md_updatedAt = clock outage_world \<rparr>)]"
    by blast+
  ultimately show ?thesis
    using nf recs i by simp
qed

section \<open>Creation of medical records\<close>

lemma residentId_query:
  "run_query record_field [Where ''residentId'' EQ (VStr rid)] docs
     = filter (\<lambda>(i, d). md_residentId d = rid) docs"
  by (simp add: run_query_def record_field_def case_prod_unfold)

lemma find_filter: "find P (filter Q xs) = find (\<lambda>x. Q x \<and> P x) xs"
  by (induction xs) auto

lemma find_exists: "(\<exists>y. find P xs = Some y) \<longleftrightarrow> (\<exists>x \<in> set xs. P x)"
  by (induction xs) auto

lemma checkExistingRecord_finds:
  assumes "next_fault w = None"
  shows "(\<exists>m. fst (checkExistingRecord h rid date w) = Inr (Some m)) \<longleftrightarrow> found_by_day_check h rid date w"
    and "fst (checkExistingRecord h rid date w) = Inr None \<longleftrightarrow> \<not> found_by_day_check h rid date w"
    and "snd (checkExistingRecord h rid date w)
           = storage_call (GetDocs MEDICAL_RECORDS [Where ''residentId'' EQ (VStr rid)]) w"
proof -
  let ?P = "\<lambda>(i, d). md_residentId d = rid \<and>
              format h YYYY_MM_DD (toDate (md_date d)) = format h YYYY_MM_DD (dayjs h date)"
  have c: "checkExistingRecord h rid date w =
      (Inr (map_option (\<lambda>(i, d). convertMedicalRecordData i d) (find ?P (medicalRecords w))),
       storage_call (GetDocs MEDICAL_RECORDS [Where ''residentId'' EQ (VStr rid)]) w)"
    using assms
    by (simp add: checkExistingRecord_def getDocs_medicalRecords_def residentId_query
        find_filter case_prod_unfold)
  have s: "found_by_day_check h rid date w \<longleftrightarrow> (\<exists>y. find ?P (medicalRecords w) = Some y)"
    unfolding find_exists found_by_day_check_def by (simp add: case_prod_unfold)
  show "(\<exists>m. fst (checkExistingRecord h rid date w) = Inr (Some m)) \<longleftrightarrow> found_by_day_check h rid date w"
    unfolding c s by auto
  show "fst (checkExistingRecord h rid date w) = Inr None \<longleftrightarrow> \<not> found_by_day_check h rid date w"
    unfolding c s by (cases "find ?P (medicalRecords w)") simp_all
  show "snd (checkExistingRecord h rid date w)
           = storage_call (GetDocs MEDICAL_RECORDS [Where ''residentId'' EQ (VStr rid)]) w"
    unfolding c by simp
qed

text \<open>
  What \<open>medicalRecordService.create\<close> does on every host. It asks \<open>checkExistingRecord\<close>
  first, and a record is found exactly when the comparison of local days matches. When
  the store answers the calls: if a record is found, \<open>create\<close> fails with an \<open>Error\<close>
  whose message starts with the date of the input formatted as year, month and day, and
  the only change to the world is the recorded query, so nothing is written; otherwise,
  the date being convertible to a timestamp, it appends one document whose \<open>createdAt\<close>
  and \<open>updatedAt\<close> are both the current time and returns the identifier of that
  document. On the host at UTC+9, with a record stored for 2024-03-10, creating for
  2024-03-10 fails in this way and creating for 2024-03-11 succeeds.
\<close>

theorem create_checks_date_first:
  assumes "next_fault w = None" and "next_fault (w\<lparr>faults := tl (faults w)\<rparr>) = None"
  shows
    "(found_by_day_check h rid (mf_date data) w \<longrightarrow>
        medicalRecordService_create h rid data w =
          (Inl (Error (format h YYYY_nen_MM_gatsu_DD_nichi (dayjs h (mf_date data))
                        @ already_exists_message)),
           w\<lparr>calls := calls w @ [GetDocs MEDICAL_RECORDS [Where ''residentId'' EQ (VStr rid)]],
             faults := tl (faults w)\<rparr>)) \<and>
     (\<not> found_by_day_check h rid (mf_date data) w \<longrightarrow>
        (\<forall>ts. toTimestamp h (mf_date data) = Inr ts \<longrightarrow>
           medicalRecordService_create h rid data w =
             (Inr (autoId h (issued w)),
              w\<lparr>calls := calls w @ [GetDocs MEDICAL_RECORDS [Where ''residentId'' EQ (VStr rid)],
                                    AddDoc MEDICAL_RECORDS],
                faults := tl (tl (faults w)),
                medicalRecords := medicalRecords w @
                  [(autoId h (issued w),
                    \<lparr> md_residentId = rid, md_date = ts, md_record = mf_record data,
                      md_createdAt = clock w, md_updatedAt = clock w \<rparr>)],
                issued := Suc (issued w)\<rparr>))) \<and>
     (fst (checkExistingRecord h rid (mf_date data) w) = Inr None
        \<longleftrightarrow> \<not> found_by_day_check h rid (mf_date data) w)"
proof -
  let ?q = "GetDocs MEDICAL_RECORDS [Where ''residentId'' EQ (VStr rid)]"
  note chk = checkExistingRecord_finds [OF assms(1), of h rid "mf_date data"]
  have nf: "next_fault (storage_call ?q w) = None"
    using assms(2) by (simp add: next_fault_def storage_call_def)
  have conflict: "medicalRecordService_create h rid data w =
          (Inl (Error (format h YYYY_nen_MM_gatsu_DD_nichi (dayjs h (mf_date data))
                        @ already_exists_message)),
           w\<lparr>calls := calls w @ [?q], faults := tl (faults w)\<rparr>)"
    if "found_by_day_check h rid (mf_date data) w"
  proof -
    from that chk(1) obtain m where "fst (checkExistingRecord h rid (mf_date data) w) = Inr (Some m)"
      by blast
    with chk(3) have "checkExistingRecord h rid (mf_date data) w = (Inr (Some m), storage_call ?q w)"
      by (metis prod.collapse)
    then show ?thesis
      by (simp add: medicalRecordService_create_def storage_call_def)
  qed
  have insert: "medicalRecordService_create h rid data w =
             (Inr (autoId h (issued w)),
              w\<lparr>calls := calls w @ [?q, AddDoc MEDICAL_RECORDS],
                faults := tl (tl (faults w)),
                medicalRecords := medicalRecords w @
                  [(autoId h (issued w),
                    \<lparr> md_residentId = rid, md_date = ts, md_record = mf_record data,
                      md_createdAt = clock w, md_updatedAt = clock w \<rparr>)],
                issued := Suc (issued w)\<rparr>)"
    if "\<not> found_by_day_check h rid (mf_date data) w" "toTimestamp h (mf_date data) = Inr ts" for ts
  proof -
    from that(1) chk(2) have "fst (checkExistingRecord h rid (mf_date data) w) = Inr None"
      by blast
    with chk(3) have "checkExistingRecord h rid (mf_date data) w = (Inr None, storage_call ?q w)"
      by (metis prod.collapse)
    then show ?thesis
      using nf that(2)
      by (simp add: medicalRecordService_create_def addDoc_medicalRecords_def Let_def)
        (simp add: storage_call_def)
  qed
  show ?thesis
    using conflict insert chk(2) by blast
qed


theorem create_checks_date_first_witness:
  "next_fault march10_world = None \<and>
   next_fault (march10_world\<lparr>faults := tl (faults march10_world)\<rparr>) = None \<and>
   found_by_day_check jst_host resident_r1 date_2024_03_10 march10_world \<and>
   fst (medicalRecordService_create jst_host resident_r1
          \<lparr>mf_date = date_2024_03_10, mf_record = note_text\<rparr> march10_world)
     = Inl (Error ([0x0032, 0x0030, 0x0032, 0x0034, 0x5E74, 0x0030, 0x0033, 0x6708,
                    0x0031, 0x0030, 0x65E5] @ already_exists_message)) \<and>
   medicalRecords (snd (medicalRecordService_create jst_host resident_r1
          \<lparr>mf_date = date_2024_03_10, mf_record = note_text\<rparr> march10_world))
     = medicalRecords march10_world \<and>
   \<not> found_by_day_check jst_host resident_r1 date_2024_03_11 march10_world \<and>
   fst (medicalRecordService_create jst_host resident_r1
          \<lparr>mf_date = date_2024_03_11, mf_record = note_text\<rparr> march10_world)
     = Inr [0x0061, 0x0061] \<and>
   medicalRecords (snd (medicalRecordService_create jst_host resident_r1
          \<lparr>mf_date = date_2024_03_11, mf_record = note_text\<rparr> march10_world))
     = medicalRecords march10_world @
         [([0x0061, 0x0061],
           \<lparr> md_residentId = resident_r1, md_date = 1710115200000, md_record = note_text,
             md_createdAt = 1710050000000, md_updatedAt = 1710050000000 \<rparr>)]"
proof -
  have nf: "next_fault march10_world = None"
    "next_fault (march10_world\<lparr>faults := tl (faults march10_world)\<rparr>) = None"
    by (simp_all add: next_fault_def march10_world_def)
  have same: "found_by_day_check jst_host resident_r1
                (mf_date \<lparr>mf_date = date_2024_03_10, mf_record = note_text\<rparr>) march10_world"
    by code_simp
  have other: "\<not> found_by_day_check jst_host resident_r1
                (mf_date \<lparr>mf_date = date_2024_03_11, mf_record = note_text\<rparr>) march10_world"
    by code_simp
  have msg: "format jst_host YYYY_nen_MM_gatsu_DD_nichi
               (dayjs jst_host (mf_date \<lparr>mf_date = date_2024_03_10, mf_record = note_text\<rparr>))
             = [0x0032, 0x0030, 0x0032, 0x0034, 0x5E74, 0x0030, 0x0033, 0x6708,
                0x0031, 0x0030, 0x65E5]"
    by code_simp
  have ts: "toTimestamp jst_host (mf_date \<lparr>mf_date = date_2024_03_11, mf_record = note_text\<rparr>)
              = Inr 1710115200000"
    by code_simp
  have i: "autoId jst_host (issued march10_world) = [0x0061, 0x0061]"
    "clock march10_world = 1710050000000"
    by code_simp+
  from create_checks_date_first [OF nf, of jst_host resident_r1
      "\<lparr>mf_date = date_2024_03_10, mf_record = note_text\<rparr>"] same msg
  have a: "medicalRecordService_create jst_host resident_r1
          \<lparr>mf_date = date_2024_03_10, mf_record = note_text\<rparr> march10_world
        = (Inl (Error ([0x0032, 0x0030, 0x0032, 0x0034, 0x5E74, 0x0030, 0x0033, 0x6708,
                        0x0031, 0x0030, 0x65E5] @ already_exists_message)),
           march10_world\<lparr>calls := calls march10_world @
               [GetDocs MEDICAL_RECORDS [Where ''residentId'' EQ (VStr resident_r1)]],
             faults := tl (faults march10_world)\<rparr>)"
    by simp
  from create_checks_date_first [OF nf, of jst_host resident_r1
      "\<lparr>mf_date = date_2024_03_11, mf_record = note_text\<rparr>"] other ts i
  have b: "medicalRecordService_create jst_host resident_r1
          \<lparr>mf_date = date_2024_03_11, mf_record = note_text\<rparr> march10_world
        = (Inr [0x0061, 0x0061],
           march10_world\<lparr>calls := calls march10_world @
               [GetDocs MEDICAL_RECORDS [Where ''residentId'' EQ (VStr resident_r1)],
                AddDoc MEDICAL_RECORDS],
             faults := tl (tl (faults march10_world)),
             medicalRecords := medicalRecords march10_world @
               [([0x0061, 0x0061],
                 \<lparr> md_residentId = resident_r1, md_date = 1710115200000, md_record = note_text,
                   md_createdAt = 1710050000000, md_updatedAt = 1710050000000 \<rparr>)],
             issued := Suc (issued march10_world)\<rparr>)"
    by simp
  show ?thesis
    unfolding a b using nf same other by simp
qed

text \<open>
  Claim C1 says that \<open>create\<close> refuses a second record of a resident for a calendar
  date that already has one: with a record dated 2024-03-10, creating for 2024-03-10
  fails with the conflict error. The code does so on a host at or east of UTC and does
  not on a host west of UTC. \<open>create\<close> stores \<open>new Date(date)\<close>, which for a date-only
  string is midnight UTC, while \<open>checkExistingRecord\<close> compares local days, the input
  parsed by \<open>dayjs\<close> as local midnight. Five hours west of UTC the record stored for
  2024-03-10 is formatted as 2024-03-09, so the second \<open>create\<close> for 2024-03-10 finds no
  record and adds a second document with the same stored date. On the host at UTC+9 the
  same two calls end with the conflict error.
\<close>

theorem create_accepts_same_date_west_of_utc:
  "fst (medicalRecordService_create utc_minus_5_host resident_r1
          \<lparr>mf_date = date_2024_03_10, mf_record = note_text\<rparr> empty_world) = Inr [0x0061] \<and>
   fst (medicalRecordService_create utc_minus_5_host resident_r1
          \<lparr>mf_date = date_2024_03_10, mf_record = note_text\<rparr>
          (snd (medicalRecordService_create utc_minus_5_host resident_r1
                  \<lparr>mf_date = date_2024_03_10, mf_record = note_text\<rparr> empty_world)))
     = Inr [0x0061, 0x0061] \<and>
   map (\<lambda>(i, d). (i, md_residentId d, md_date d))
     (medicalRecords
        (snd (medicalRecordService_create utc_minus_5_host resident_r1
                \<lparr>mf_date = date_2024_03_10, mf_record = note_text\<rparr>
                (snd (medicalRecordService_create utc_minus_5_host resident_r1
                        \<lparr>mf_date = date_2024_03_10, mf_record = note_text\<rparr> empty_world)))))
     = [([0x0061], resident_r1, 1710028800000), ([0x0061, 0x0061], resident_r1, 1710028800000)] \<and>
   format utc_minus_5_host YYYY_MM_DD (toDate 1710028800000) = date_2024_03_09 \<and>
   format utc_minus_5_host YYYY_MM_DD (dayjs utc_minus_5_host date_2024_03_10) = date_2024_03_10 \<and>
   fst (medicalRecordService_create jst_host resident_r1
          \<lparr>mf_date = date_2024_03_10, mf_record = note_text\<rparr>
          (snd (medicalRecordService_create jst_host resident_r1
                  \<lparr>mf_date = date_2024_03_10, mf_record = note_text\<rparr> empty_world)))
     = Inl (Error ([0x0032, 0x0030, 0x0032, 0x0034, 0x5E74, 0x0030, 0x0033, 0x6708,
                    0x0031, 0x0030, 0x65E5] @ already_exists_message))"
  by code_simp

section \<open>Update of medical records\<close>

lemma optTimestamp_cases:
  "optTimestamp h s = Inr dt \<Longrightarrow>
   (s = None \<longleftrightarrow> dt = None) \<and> (\<forall>t. s = Some t \<longrightarrow> (\<exists>ts. dt = Some ts \<and> toTimestamp h t = Inr ts))"
  by (auto simp: optTimestamp_def split: option.splits sum.splits)

lemma record_update_effect:
  assumes "medicalRecordService_update h docId data w = (Inr (), w')"
  shows "\<exists>dt. optTimestamp h (mp_date data) = Inr dt \<and>
           w' = w\<lparr>calls := calls w @ [UpdateDoc MEDICAL_RECORDS docId], faults := tl (faults w),
                  medicalRecords :=
                    map (\<lambda>(i, d). if i = docId
                           then (i, d\<lparr>md_date := (case dt of None \<Rightarrow> md_date d | Some t \<Rightarrow> t),
                                     md_record := (case mp_record data of None \<Rightarrow> md_record d
                                                   | Some r \<Rightarrow> r),
                                     md_updatedAt := clock w\<rparr>)
                           else (i, d)) (medicalRecords w)\<rparr>"
proof -
  from assms obtain dt where dt: "optTimestamp h (mp_date data) = Inr dt"
    by (auto simp: medicalRecordService_update_def split: sum.splits)
  have ap: "apply_record_update \<lparr>mu_date = dt, mu_record = mp_record data, mu_updatedAt = Some (clock w)\<rparr> d
        = d\<lparr>md_date := (case dt of None \<Rightarrow> md_date d | Some t \<Rightarrow> t),
            md_record := (case mp_record data of None \<Rightarrow> md_record d | Some r \<Rightarrow> r),
            md_updatedAt := clock w\<rparr>" for d
    by (simp add: apply_record_update_def)
  from assms dt have "w' = w\<lparr>calls := calls w @ [UpdateDoc MEDICAL_RECORDS docId], faults := tl (faults w),
                  medicalRecords :=
                    map (\<lambda>(i, d). if i = docId
                           then (i, apply_record_update
                                   \<lparr>mu_date = dt, mu_record = mp_record data,
                                    mu_updatedAt = Some (clock w)\<rparr> d)
                           else (i, d)) (medicalRecords w)\<rparr>"
    by (auto simp: medicalRecordService_update_def updateDoc_medicalRecords_def storage_call_def
        Let_def split: option.splits if_splits)
  then show ?thesis
    using dt unfolding ap by blast
qed

lemma record_update_succeeds:
  assumes "next_fault w = None" "docId \<in> fst ` set (medicalRecords w)"
    "optTimestamp h (mp_date data) = Inr dt"
  shows "fst (medicalRecordService_update h docId data w) = Inr ()"
  using assms
  by (simp add: medicalRecordService_update_def updateDoc_medicalRecords_def Let_def)


lemma duplicate_by_update:
  "\<not> same_day_duplicate jst_host two_day_world"
  "fst (medicalRecordService_create jst_host resident_r1
          \<lparr>mf_date = date_2024_03_10, mf_record = note_text\<rparr> two_day_world)
     = Inl (Error ([0x0032, 0x0030, 0x0032, 0x0034, 0x5E74, 0x0030, 0x0033, 0x6708,
                    0x0031, 0x0030, 0x65E5] @ already_exists_message))"
  "fst (medicalRecordService_update jst_host [0x0061, 0x0061]
          \<lparr>mp_date = Some date_2024_03_10, mp_record = None\<rparr> two_day_world) = Inr ()"
  "same_day_duplicate jst_host
     (snd (medicalRecordService_update jst_host [0x0061, 0x0061]
          \<lparr>mp_date = Some date_2024_03_10, mp_record = None\<rparr> two_day_world))"
  by code_simp+

text \<open>
  Claim C5. A successful \<open>medicalRecordService.update\<close> makes one call to the store, the
  \<open>updateDoc\<close> itself, and no query: in the document with the given identifier it
  replaces the date when the input has one, the text when the input has one, and always
  sets \<open>updatedAt\<close> to the current time; every other field and every other document stay
  as they were. It succeeds whenever the store answers, the document exists and the date
  converts, whatever the dates of the other records. So there is a world without
  same-day records of one resident in which \<open>create\<close> for a day is refused, while
  updating another record of that resident to that day succeeds and leaves two records
  of the resident on one day.
\<close>

theorem record_update_skips_date_check:
  "(medicalRecordService_update h docId data w = (Inr (), w') \<longrightarrow>
      (\<exists>dt. optTimestamp h (mp_date data) = Inr dt \<and>
         (mp_date data = None \<longleftrightarrow> dt = None) \<and>
         (\<forall>s. mp_date data = Some s \<longrightarrow> (\<exists>ts. dt = Some ts \<and> toTimestamp h s = Inr ts)) \<and>
         w' = w\<lparr>calls := calls w @ [UpdateDoc MEDICAL_RECORDS docId], faults := tl (faults w),
                medicalRecords :=
                  map (\<lambda>(i, d). if i = docId
                         then (i, d\<lparr>md_date := (case dt of None \<Rightarrow> md_date d | Some t \<Rightarrow> t),
                                   md_record := (case mp_record data of None \<Rightarrow> md_record d
                                                 | Some r \<Rightarrow> r),
                                   md_updatedAt := clock w\<rparr>)
                         else (i, d)) (medicalRecords w)\<rparr>)) \<and>
   (next_fault w = None \<and> docId \<in> fst ` set (medicalRecords w) \<and>
    optTimestamp h (mp_date data) = Inr dt' \<longrightarrow>
      fst (medicalRecordService_update h docId data w) = Inr ()) \<and>
   (\<exists>h w docId rid date.
      \<not> same_day_duplicate h w \<and>
      (\<exists>msg. fst (medicalRecordService_create h rid \<lparr>mf_date = date, mf_record = note_text\<rparr> w)
               = Inl (Error msg)) \<and>
      fst (medicalRecordService_update h docId \<lparr>mp_date = Some date, mp_record = None\<rparr> w) = Inr () \<and>
      same_day_duplicate h
        (snd (medicalRecordService_update h docId \<lparr>mp_date = Some date, mp_record = None\<rparr> w)))"
proof -
  have a: "\<exists>dt. optTimestamp h (mp_date data) = Inr dt \<and>
         (mp_date data = None \<longleftrightarrow> dt = None) \<and>
         (\<forall>s. mp_date data = Some s \<longrightarrow> (\<exists>ts. dt = Some ts \<and> toTimestamp h s = Inr ts)) \<and>
         w' = w\<lparr>calls := calls w @ [UpdateDoc MEDICAL_RECORDS docId], faults := tl (faults w),
                medicalRecords :=
                  map (\<lambda>(i, d). if i = docId
                         then (i, d\<lparr>md_date := (case dt of None \<Rightarrow> md_date d | Some t \<Rightarrow> t),
                                   md_record := (case mp_record data of None \<Rightarrow> md_record d
                                                 | Some r \<Rightarrow> r),
                                   md_updatedAt := clock w\<rparr>)
                         else (i, d)) (medicalRecords w)\<rparr>"
    if "medicalRecordService_update h docId data w = (Inr (), w')"
    using record_update_effect [OF that] optTimestamp_cases by blast
  have c: "\<exists>h w docId rid date.
      \<not> same_day_duplicate h w \<and>
      (\<exists>msg. fst (medicalRecordService_create h rid \<lparr>mf_date = date, mf_record = note_text\<rparr> w)
               = Inl (Error msg)) \<and>
      fst (medicalRecordService_update h docId \<lparr>mp_date = Some date, mp_record = None\<rparr> w) = Inr () \<and>
      same_day_duplicate h
        (snd (medicalRecordService_update h docId \<lparr>mp_date = Some date, mp_record = None\<rparr> w))"
    using duplicate_by_update by blast
  have b: "next_fault w = None \<and> docId \<in> fst ` set (medicalRecords w) \<and>
      optTimestamp h (mp_date data) = Inr dt' \<longrightarrow>
      fst (medicalRecordService_update h docId data w) = Inr ()"
    using record_update_succeeds by blast
  show ?thesis
    by (rule conjI, rule impI, rule a, assumption, rule conjI, rule b, rule c)
qed

theorem record_update_skips_date_check_witness:
  "fst (medicalRecordService_update jst_host [0x0061, 0x0061]
          \<lparr>mp_date = Some date_2024_03_10, mp_record = None\<rparr> two_day_world) = Inr () \<and>
   calls (snd (medicalRecordService_update jst_host [0x0061, 0x0061]
          \<lparr>mp_date = Some date_2024_03_10, mp_record = None\<rparr> two_day_world))
     = [UpdateDoc MEDICAL_RECORDS [0x0061, 0x0061]] \<and>
   medicalRecords (snd (medicalRecordService_update jst_host [0x0061, 0x0061]
          \<lparr>mp_date = Some date_2024_03_10, mp_record = None\<rparr> two_day_world))
     = [([0x0061], \<lparr> md_residentId = resident_r1, md_date = 1710028800000, md_record = note_text,
                     md_createdAt = 1710040000000, md_updatedAt = 1710040000000 \<rparr>),
        ([0x0061, 0x0061], \<lparr> md_residentId = resident_r1, md_date = 1710028800000,
                           md_record = note_text,
                           md_createdAt = 1710120000000, md_updatedAt = 1710130000000 \<rparr>)]"
proof -
  define W where "W = snd (medicalRecordService_update jst_host [0x0061, 0x0061]
          \<lparr>mp_date = Some date_2024_03_10, mp_record = None\<rparr> two_day_world)"
  have r: "medicalRecordService_update jst_host [0x0061, 0x0061]
          \<lparr>mp_date = Some date_2024_03_10, mp_record = None\<rparr> two_day_world = (Inr (), W)"
    unfolding W_def using duplicate_by_update(3) by (metis prod.collapse)
  have ts: "toTimestamp jst_host date_2024_03_10 = Inr 1710028800000"
    by code_simp
  from record_update_skips_date_check [of jst_host "[0x0061, 0x0061]"
      "\<lparr>mp_date = Some date_2024_03_10, mp_record = None\<rparr>" two_day_world W] r
  obtain dt where
    dt: "\<forall>s. mp_date \<lparr>mp_date = Some date_2024_03_10, mp_record = None\<rparr> = Some s \<longrightarrow>
           (\<exists>ts. dt = Some ts \<and> toTimestamp jst_host s = Inr ts)" and
    W: "W = two_day_world\<lparr>calls := calls two_day_world @ [UpdateDoc MEDICAL_RECORDS [0x0061, 0x0061]],
                faults := tl (faults two_day_world),
                medicalRecords :=
                  map (\<lambda>(i, d). if i = [0x0061, 0x0061]
                         then (i, d\<lparr>md_date := (case dt of None \<Rightarrow> md_date d | Some t \<Rightarrow> t),
                                   md_record :=
                                     (case mp_record \<lparr>mp_date = Some date_2024_03_10, mp_record = None\<rparr>
                                      of None \<Rightarrow> md_record d | Some r \<Rightarrow> r),
                                   md_updatedAt := clock two_day_world\<rparr>)
                         else (i, d)) (medicalRecords two_day_world)\<rparr>"
    by blast
  from dt ts have dt': "dt = Some 1710028800000"
    by simp
  have "calls W = [UpdateDoc MEDICAL_RECORDS [0x0061, 0x0061]]"
    "medicalRecords W
     = [([0x0061], \<lparr> md_residentId = resident_r1, md_date = 1710028800000, md_record = note_text,
                     md_createdAt = 1710040000000, md_updatedAt = 1710040000000 \<rparr>),
        ([0x0061, 0x0061], \<lparr> md_residentId = resident_r1, md_date = 1710028800000,
                           md_record = note_text,
                           md_createdAt = 1710120000000, md_updatedAt = 1710130000000 \<rparr>)]"
    unfolding W dt' by (simp_all add: two_day_world_def)
  then show ?thesis
    using r unfolding W_def [symmetric] by simp
qed

section \<open>Update of residents\<close>

lemma yamada_world_registered:
  "residentService_create jst_host (registration_form yamada_taro yamada_taro_kana) empty_world
     = (Inr [0x0061], yamada_world)"
  by code_simp

lemma optDischarge_None: "optDischarge h s = Inr dd \<Longrightarrow> (dd = None \<longleftrightarrow> s = None)"
  by (auto simp: optDischarge_def split: option.splits sum.splits if_splits)

lemma optTimestamp_None: "optTimestamp h s = Inr dt \<Longrightarrow> (dt = None \<longleftrightarrow> s = None)"
  by (auto simp: optTimestamp_def split: option.splits sum.splits)

lemma resident_updateData_keys:
  assumes "resident_updateData h now data = Inr u"
  shows "u_updatedAt u = Some now"
    "u_name u = p_name data" "u_furigana u = p_furigana data" "u_gender u = p_gender data"
    "u_roomNumber u = p_roomNumber data" "u_medicalHistory u = p_medicalHistory data"
    "u_medications u = p_medications data" "u_careLevel u = p_careLevel data"
    "u_birthDate u = None \<longleftrightarrow> p_birthDate data = None"
    "u_admissionDate u = None \<longleftrightarrow> p_admissionDate data = None"
    "u_dischargeDate u = None \<longleftrightarrow> p_dischargeDate data = None"
    "u_lastName u = map_option (\<lambda>n. part_or_empty (split SPACE n) 0) (p_name data)"
    "u_firstName u = map_option (\<lambda>n. part_or_empty (split SPACE n) 1) (p_name data)"
    "u_lastNameKana u = map_option (\<lambda>n. part_or_empty (split SPACE n) 0) (p_furigana data)"
    "u_firstNameKana u = map_option (\<lambda>n. part_or_empty (split SPACE n) 1) (p_furigana data)"
  using assms optTimestamp_None optDischarge_None
  unfolding resident_updateData_def
  by (auto split: sum.splits)

lemma resident_update_effect:
  assumes "residentService_update h docId data w = (Inr (), w')"
  shows "\<exists>u. resident_updateData h (clock w) data = Inr u \<and>
           w' = w\<lparr>calls := calls w @ [UpdateDoc RESIDENTS docId], faults := tl (faults w),
                  residents :=
                    map (\<lambda>(i, d). if i = docId then (i, apply_resident_update u d) else (i, d))
                      (residents w)\<rparr>"
  using assms
  by (auto simp: residentService_update_def updateDoc_residents_def storage_call_def Let_def
      split: sum.splits option.splits if_splits)


lemma only_roomNumber_updateData:
  "resident_updateData h now (only_roomNumber r) =
     Inr \<lparr> u_name = None, u_furigana = None, u_lastName = None, u_firstName = None,
           u_lastNameKana = None, u_firstNameKana = None, u_gender = None, u_birthDate = None,
           u_roomNumber = Some r, u_admissionDate = None, u_dischargeDate = None,
           u_medicalHistory = None, u_medications = None, u_careLevel = None,
           u_updatedAt = Some now \<rparr>"
  by (simp add: resident_updateData_def only_roomNumber_def optTimestamp_def optDischarge_def)

lemma only_roomNumber_applied:
  "apply_resident_update
     \<lparr> u_name = None, u_furigana = None, u_lastName = None, u_firstName = None,
       u_lastNameKana = None, u_firstNameKana = None, u_gender = None, u_birthDate = None,
       u_roomNumber = Some r, u_admissionDate = None, u_dischargeDate = None,
       u_medicalHistory = None, u_medications = None, u_careLevel = None,
       u_updatedAt = Some now \<rparr> d
   = d\<lparr>d_roomNumber := r, d_updatedAt := now\<rparr>"
  by (cases d) (simp add: apply_resident_update_def)

lemma only_roomNumber_effect:
  assumes "residentService_update h docId (only_roomNumber r) w = (Inr (), w')"
  shows "w' = w\<lparr>calls := calls w @ [UpdateDoc RESIDENTS docId], faults := tl (faults w),
                 residents :=
                   map (\<lambda>(i, d). if i = docId then (i, d\<lparr>d_roomNumber := r, d_updatedAt := clock w\<rparr>)
                                  else (i, d)) (residents w)\<rparr>"
proof -
  from resident_update_effect [OF assms] obtain u where
    u: "resident_updateData h (clock w) (only_roomNumber r) = Inr u" and
    w': "w' = w\<lparr>calls := calls w @ [UpdateDoc RESIDENTS docId], faults := tl (faults w),
                  residents :=
                    map (\<lambda>(i, d). if i = docId then (i, apply_resident_update u d) else (i, d))
                      (residents w)\<rparr>"
    by blast
  from u have u': "u = \<lparr> u_name = None, u_furigana = None, u_lastName = None, u_firstName = None,
           u_lastNameKana = None, u_firstNameKana = None, u_gender = None, u_birthDate = None,
           u_roomNumber = Some r, u_admissionDate = None, u_dischargeDate = None,
           u_medicalHistory = None, u_medications = None, u_careLevel = None,
           u_updatedAt = Some (clock w) \<rparr>"
    by (simp add: only_roomNumber_updateData)
  show ?thesis
    unfolding w' u' only_roomNumber_applied ..
qed

lemma absent_fields_kept:
  assumes u: "resident_updateData h now data = Inr u" and d': "d' = apply_resident_update u d"
  shows "d_createdAt d' = d_createdAt d \<and> d_updatedAt d' = now \<and>
     (p_name data = None \<longrightarrow>
        d_name d' = d_name d \<and> d_lastName d' = d_lastName d \<and> d_firstName d' = d_firstName d) \<and>
     (p_furigana data = None \<longrightarrow>
        d_furigana d' = d_furigana d \<and> d_lastNameKana d' = d_lastNameKana d \<and>
        d_firstNameKana d' = d_firstNameKana d) \<and>
     (p_gender data = None \<longrightarrow> d_gender d' = d_gender d) \<and>
     (p_birthDate data = None \<longrightarrow> d_birthDate d' = d_birthDate d) \<and>
     (p_roomNumber data = None \<longrightarrow> d_roomNumber d' = d_roomNumber d) \<and>
     (p_admissionDate data = None \<longrightarrow> d_admissionDate d' = d_admissionDate d) \<and>
     (p_dischargeDate data = None \<longrightarrow> d_dischargeDate d' = d_dischargeDate d) \<and>
     (p_medicalHistory data = None \<longrightarrow> d_medicalHistory d' = d_medicalHistory d) \<and>
     (p_medications data = None \<longrightarrow> d_medications d' = d_medications d) \<and>
     (p_careLevel data = None \<longrightarrow> d_careLevel d' = d_careLevel d) \<and>
     (\<forall>n. p_name data = Some n \<longrightarrow>
        d_name d' = n \<and> d_lastName d' = part_or_empty (split SPACE n) 0 \<and>
        d_firstName d' = part_or_empty (split SPACE n) 1) \<and>
     (\<forall>f. p_furigana data = Some f \<longrightarrow>
        d_furigana d' = f \<and> d_lastNameKana d' = part_or_empty (split SPACE f) 0 \<and>
        d_firstNameKana d' = part_or_empty (split SPACE f) 1) \<and>
     (\<forall>r. p_roomNumber data = Some r \<longrightarrow> d_roomNumber d' = r)"
  using resident_updateData_keys [OF u]
  unfolding d' apply_resident_update_def
  by (auto split: option.splits)


lemma optDischarge_cases:
  "optDischarge h s = Inr dd \<Longrightarrow>
   (\<forall>t. s = Some t \<longrightarrow>
      (t = [] \<longrightarrow> dd = Some None) \<and>
      (t \<noteq> [] \<longrightarrow> (\<exists>ts. toTimestamp h t = Inr ts \<and> dd = Some (Some ts))))"
  by (auto simp: optDischarge_def split: option.splits sum.splits if_splits)

lemma present_fields_written:
  assumes u: "resident_updateData h now data = Inr u" and d': "d' = apply_resident_update u d"
  shows "(\<forall>g. p_gender data = Some g \<longrightarrow> d_gender d' = g) \<and>
     (\<forall>s. p_birthDate data = Some s \<longrightarrow> toTimestamp h s = Inr (d_birthDate d')) \<and>
     (\<forall>s. p_admissionDate data = Some s \<longrightarrow> toTimestamp h s = Inr (d_admissionDate d')) \<and>
     (\<forall>s. p_dischargeDate data = Some s \<longrightarrow>
        (s = [] \<longrightarrow> d_dischargeDate d' = None) \<and>
        (s \<noteq> [] \<longrightarrow> (\<exists>ts. toTimestamp h s = Inr ts \<and> d_dischargeDate d' = Some ts))) \<and>
     (\<forall>t. p_medicalHistory data = Some t \<longrightarrow> d_medicalHistory d' = t) \<and>
     (\<forall>ms. p_medications data = Some ms \<longrightarrow> d_medications d' = ms) \<and>
     (\<forall>c. p_careLevel data = Some c \<longrightarrow> d_careLevel d' = c)"
proof -
  from u obtain birth admission discharge where
    b: "optTimestamp h (p_birthDate data) = Inr birth" and
    a: "optTimestamp h (p_admissionDate data) = Inr admission" and
    c: "optDischarge h (p_dischargeDate data) = Inr discharge" and
    ub: "u_birthDate u = birth" and ua: "u_admissionDate u = admission" and
    ud: "u_dischargeDate u = discharge"
    unfolding resident_updateData_def by (auto split: sum.splits)
  note k = resident_updateData_keys [OF u]
  have "\<forall>g. p_gender data = Some g \<longrightarrow> d_gender d' = g"
    unfolding d' apply_resident_update_def using k(4) by simp
  moreover have "\<forall>s. p_birthDate data = Some s \<longrightarrow> toTimestamp h s = Inr (d_birthDate d')"
    unfolding d' apply_resident_update_def using optTimestamp_cases [OF b] ub by auto
  moreover have "\<forall>s. p_admissionDate data = Some s \<longrightarrow> toTimestamp h s = Inr (d_admissionDate d')"
    unfolding d' apply_resident_update_def using optTimestamp_cases [OF a] ua by auto
  moreover have "\<forall>s. p_dischargeDate data = Some s \<longrightarrow>
        (s = [] \<longrightarrow> d_dischargeDate d' = None) \<and>
        (s \<noteq> [] \<longrightarrow> (\<exists>ts. toTimestamp h s = Inr ts \<and> d_dischargeDate d' = Some ts))"
    unfolding d' apply_resident_update_def using optDischarge_cases [OF c] ud by auto
  moreover have "\<forall>t. p_medicalHistory data = Some t \<longrightarrow> d_medicalHistory d' = t"
    unfolding d' apply_resident_update_def using k(6) by simp
  moreover have "\<forall>ms. p_medications data = Some ms \<longrightarrow> d_medications d' = ms"
    unfolding d' apply_resident_update_def using k(7) by simp
  moreover have "\<forall>c. p_careLevel data = Some c \<longrightarrow> d_careLevel d' = c"
    unfolding d' apply_resident_update_def using k(8) by simp
  ultimately show ?thesis
    by (intro conjI)
qed

lemma optTimestamp_defined:
  "\<forall>s. x = Some s \<longrightarrow> (\<exists>ts. toTimestamp h s = Inr ts) \<Longrightarrow> \<exists>dt. optTimestamp h x = Inr dt"
  by (cases x) (auto simp: optTimestamp_def)

lemma optDischarge_defined:
  "\<forall>s. x = Some s \<and> s \<noteq> [] \<longrightarrow> (\<exists>ts. toTimestamp h s = Inr ts) \<Longrightarrow>
   \<exists>dd. optDischarge h x = Inr dd"
  by (cases x) (auto simp: optDischarge_def)

lemma resident_update_succeeds:
  assumes "next_fault w = None" "docId \<in> fst ` set (residents w)"
    and "\<forall>s. p_birthDate data = Some s \<longrightarrow> (\<exists>ts. toTimestamp h s = Inr ts)"
    and "\<forall>s. p_admissionDate data = Some s \<longrightarrow> (\<exists>ts. toTimestamp h s = Inr ts)"
    and "\<forall>s. p_dischargeDate data = Some s \<and> s \<noteq> [] \<longrightarrow> (\<exists>ts. toTimestamp h s = Inr ts)"
  shows "fst (residentService_update h docId data w) = Inr ()"
proof -
  from optTimestamp_defined [OF assms(3)] obtain b where
    b: "optTimestamp h (p_birthDate data) = Inr b" by blast
  from optTimestamp_defined [OF assms(4)] obtain a where
    a: "optTimestamp h (p_admissionDate data) = Inr a" by blast
  from optDischarge_defined [OF assms(5)] obtain c where
    c: "optDischarge h (p_dischargeDate data) = Inr c" by blast
  show ?thesis
    using assms(1,2)
    by (simp add: residentService_update_def resident_updateData_def a b c
        updateDoc_residents_def Let_def)
qed

text \<open>
  Claim C7. A successful \<open>residentService.update\<close> makes the one call \<open>updateDoc\<close> and
  touches only the document with the given identifier. In that document \<open>updatedAt\<close>
  becomes the current time and \<open>createdAt\<close> stays. Every field whose input is absent
  keeps its stored value, and with it the two split fields when the name, or the
  reading, is absent. Every field whose input is present is written: the name and the
  reading together with the two pieces split from each, the gender, the room number,
  the medical history, the medications and the care level as given, the birth and
  admission dates converted to timestamps, and the discharge date converted or, for the
  empty string, set to \<open>null\<close>. For the input that has a room number only, the new
  document is the old one with \<open>roomNumber\<close> and \<open>updatedAt\<close> replaced and nothing else.
  The update succeeds whenever the store answers, the document exists and the dates
  that are present convert, whatever other fields the input has.
\<close>

theorem resident_update_frame:
  "(residentService_update h docId data w = (Inr (), w') \<longrightarrow>
      calls w' = calls w @ [UpdateDoc RESIDENTS docId] \<and>
      medicalRecords w' = medicalRecords w \<and>
      length (residents w') = length (residents w) \<and>
      (k < length (residents w) \<longrightarrow>
         (\<exists>i d d'. residents w ! k = (i, d) \<and> residents w' ! k = (i, d') \<and>
            (i \<noteq> docId \<longrightarrow> d' = d) \<and>
            (i = docId \<longrightarrow>
     (d_createdAt d' = d_createdAt d \<and> d_updatedAt d' = clock w \<and>
     (p_name data = None \<longrightarrow>
        d_name d' = d_name d \<and> d_lastName d' = d_lastName d \<and> d_firstName d' = d_firstName d) \<and>
     (p_furigana data = None \<longrightarrow>
        d_furigana d' = d_furigana d \<and> d_lastNameKana d' = d_lastNameKana d \<and>
        d_firstNameKana d' = d_firstNameKana d) \<and>
     (p_gender data = None \<longrightarrow> d_gender d' = d_gender d) \<and>
     (p_birthDate data = None \<longrightarrow> d_birthDate d' = d_birthDate d) \<and>
     (p_roomNumber data = None \<longrightarrow> d_roomNumber d' = d_roomNumber d) \<and>
     (p_admissionDate data = None \<longrightarrow> d_admissionDate d' = d_admissionDate d) \<and>
     (p_dischargeDate data = None \<longrightarrow> d_dischargeDate d' = d_dischargeDate d) \<and>
     (p_medicalHistory data = None \<longrightarrow> d_medicalHistory d' = d_medicalHistory d) \<and>
     (p_medications data = None \<longrightarrow> d_medications d' = d_medications d) \<and>
     (p_careLevel data = None \<longrightarrow> d_careLevel d' = d_careLevel d) \<and>
     (\<forall>n. p_name data = Some n \<longrightarrow>
        d_name d' = n \<and> d_lastName d' = part_or_empty (split SPACE n) 0 \<and>
        d_firstName d' = part_or_empty (split SPACE n) 1) \<and>
     (\<forall>f. p_furigana data = Some f \<longrightarrow>
        d_furigana d' = f \<and> d_lastNameKana d' = part_or_empty (split SPACE f) 0 \<and>
        d_firstNameKana d' = part_or_empty (split SPACE f) 1) \<and>
     (\<forall>r. p_roomNumber data = Some r \<longrightarrow> d_roomNumber d' = r)) \<and>
     ((\<forall>g. p_gender data = Some g \<longrightarrow> d_gender d' = g) \<and>
     (\<forall>s. p_birthDate data = Some s \<longrightarrow> toTimestamp h s = Inr (d_birthDate d')) \<and>
     (\<forall>s. p_admissionDate data = Some s \<longrightarrow> toTimestamp h s = Inr (d_admissionDate d')) \<and>
     (\<forall>s. p_dischargeDate data = Some s \<longrightarrow>
        (s = [] \<longrightarrow> d_dischargeDate d' = None) \<and>
        (s \<noteq> [] \<longrightarrow> (\<exists>ts. toTimestamp h s = Inr ts \<and> d_dischargeDate d' = Some ts))) \<and>
     (\<forall>t. p_medicalHistory data = Some t \<longrightarrow> d_medicalHistory d' = t) \<and>
     (\<forall>ms. p_medications data = Some ms \<longrightarrow> d_medications d' = ms) \<and>
     (\<forall>c. p_careLevel data = Some c \<longrightarrow> d_careLevel d' = c)))))) \<and>
   (residentService_update h docId (only_roomNumber r) w = (Inr (), w'') \<longrightarrow>
      w'' = w\<lparr>calls := calls w @ [UpdateDoc RESIDENTS docId], faults := tl (faults w),
                residents :=
                  map (\<lambda>(i, d). if i = docId then (i, d\<lparr>d_roomNumber := r, d_updatedAt := clock w\<rparr>)
                                 else (i, d)) (residents w)\<rparr>) \<and>
   (next_fault w = None \<and> docId \<in> fst ` set (residents w) \<and>
    (\<forall>s. p_birthDate data = Some s \<longrightarrow> (\<exists>ts. toTimestamp h s = Inr ts)) \<and>
    (\<forall>s. p_admissionDate data = Some s \<longrightarrow> (\<exists>ts. toTimestamp h s = Inr ts)) \<and>
    (\<forall>s. p_dischargeDate data = Some s \<and> s \<noteq> [] \<longrightarrow> (\<exists>ts. toTimestamp h s = Inr ts)) \<longrightarrow>
      fst (residentService_update h docId data w) = Inr ())"
proof -
  have a: "calls w' = calls w @ [UpdateDoc RESIDENTS docId] \<and>
      medicalRecords w' = medicalRecords w \<and>
      length (residents w') = length (residents w) \<and>
      (k < length (residents w) \<longrightarrow>
         (\<exists>i d d'. residents w ! k = (i, d) \<and> residents w' ! k = (i, d') \<and>
            (i \<noteq> docId \<longrightarrow> d' = d) \<and>
            (i = docId \<longrightarrow>
     (d_createdAt d' = d_createdAt d \<and> d_updatedAt d' = clock w \<and>
     (p_name data = None \<longrightarrow>
        d_name d' = d_name d \<and> d_lastName d' = d_lastName d \<and> d_firstName d' = d_firstName d) \<and>
     (p_furigana data = None \<longrightarrow>
        d_furigana d' = d_furigana d \<and> d_lastNameKana d' = d_lastNameKana d \<and>
        d_firstNameKana d' = d_firstNameKana d) \<and>
     (p_gender data = None \<longrightarrow> d_gender d' = d_gender d) \<and>
     (p_birthDate data = None \<longrightarrow> d_birthDate d' = d_birthDate d) \<and>
     (p_roomNumber data = None \<longrightarrow> d_roomNumber d' = d_roomNumber d) \<and>
     (p_admissionDate data = None \<longrightarrow> d_admissionDate d' = d_admissionDate d) \<and>
     (p_dischargeDate data = None \<longrightarrow> d_dischargeDate d' = d_dischargeDate d) \<and>
     (p_medicalHistory data = None \<longrightarrow> d_medicalHistory d' = d_medicalHistory d) \<and>
     (p_medications data = None \<longrightarrow> d_medications d' = d_medications d) \<and>
     (p_careLevel data = None \<longrightarrow> d_careLevel d' = d_careLevel d) \<and>
     (\<forall>n. p_name data = Some n \<longrightarrow>
        d_name d' = n \<and> d_lastName d' = part_or_empty (split SPACE n) 0 \<and>
        d_firstName d' = part_or_empty (split SPACE n) 1) \<and>
     (\<forall>f. p_furigana data = Some f \<longrightarrow>
        d_furigana d' = f \<and> d_lastNameKana d' = part_or_empty (split SPACE f) 0 \<and>
        d_firstNameKana d' = part_or_empty (split SPACE f) 1) \<and>
     (\<forall>r. p_roomNumber data = Some r \<longrightarrow> d_roomNumber d' = r)) \<and>
     ((\<forall>g. p_gender data = Some g \<longrightarrow> d_gender d' = g) \<and>
     (\<forall>s. p_birthDate data = Some s \<longrightarrow> toTimestamp h s = Inr (d_birthDate d')) \<and>
     (\<forall>s. p_admissionDate data = Some s \<longrightarrow> toTimestamp h s = Inr (d_admissionDate d')) \<and>
     (\<forall>s. p_dischargeDate data = Some s \<longrightarrow>
        (s = [] \<longrightarrow> d_dischargeDate d' = None) \<and>
        (s \<noteq> [] \<longrightarrow> (\<exists>ts. toTimestamp h s = Inr ts \<and> d_dischargeDate d' = Some ts))) \<and>
     (\<forall>t. p_medicalHistory data = Some t \<longrightarrow> d_medicalHistory d' = t) \<and>
     (\<forall>ms. p_medications data = Some ms \<longrightarrow> d_medications d' = ms) \<and>
     (\<forall>c. p_careLevel data = Some c \<longrightarrow> d_careLevel d' = c)))))"
    if ok: "residentService_update h docId data w = (Inr (), w')"
  proof -
    from resident_update_effect [OF ok] obtain u where
      u: "resident_updateData h (clock w) data = Inr u" and
      w': "w' = w\<lparr>calls := calls w @ [UpdateDoc RESIDENTS docId], faults := tl (faults w),
                    residents :=
                      map (\<lambda>(i, d). if i = docId then (i, apply_resident_update u d) else (i, d))
                        (residents w)\<rparr>"
      by blast
    have "\<exists>i d d'. residents w ! k = (i, d) \<and> residents w' ! k = (i, d') \<and>
            (i \<noteq> docId \<longrightarrow> d' = d) \<and>
            (i = docId \<longrightarrow>
     (d_createdAt d' = d_createdAt d \<and> d_updatedAt d' = clock w \<and>
     (p_name data = None \<longrightarrow>
        d_name d' = d_name d \<and> d_lastName d' = d_lastName d \<and> d_firstName d' = d_firstName d) \<and>
     (p_furigana data = None \<longrightarrow>
        d_furigana d' = d_furigana d \<and> d_lastNameKana d' = d_lastNameKana d \<and>
        d_firstNameKana d' = d_firstNameKana d) \<and>
     (p_gender data = None \<longrightarrow> d_gender d' = d_gender d) \<and>
     (p_birthDate data = None \<longrightarrow> d_birthDate d' = d_birthDate d) \<and>
     (p_roomNumber data = None \<longrightarrow> d_roomNumber d' = d_roomNumber d) \<and>
     (p_admissionDate data = None \<longrightarrow> d_admissionDate d' = d_admissionDate d) \<and>
     (p_dischargeDate data = None \<longrightarrow> d_dischargeDate d' = d_dischargeDate d) \<and>
     (p_medicalHistory data = None \<longrightarrow> d_medicalHistory d' = d_medicalHistory d) \<and>
     (p_medications data = None \<longrightarrow> d_medications d' = d_medications d) \<and>
     (p_careLevel data = None \<longrightarrow> d_careLevel d' = d_careLevel d) \<and>
     (\<forall>n. p_name data = Some n \<longrightarrow>
        d_name d' = n \<and> d_lastName d' = part_or_empty (split SPACE n) 0 \<and>
        d_firstName d' = part_or_empty (split SPACE n) 1) \<and>
     (\<forall>f. p_furigana data = Some f \<longrightarrow>
        d_furigana d' = f \<and> d_lastNameKana d' = part_or_empty (split SPACE f) 0 \<and>
        d_firstNameKana d' = part_or_empty (split SPACE f) 1) \<and>
     (\<forall>r. p_roomNumber data = Some r \<longrightarrow> d_roomNumber d' = r)) \<and>
     ((\<forall>g. p_gender data = Some g \<longrightarrow> d_gender d' = g) \<and>
     (\<forall>s. p_birthDate data = Some s \<longrightarrow> toTimestamp h s = Inr (d_birthDate d')) \<and>
     (\<forall>s. p_admissionDate data = Some s \<longrightarrow> toTimestamp h s = Inr (d_admissionDate d')) \<and>
     (\<forall>s. p_dischargeDate data = Some s \<longrightarrow>
        (s = [] \<longrightarrow> d_dischargeDate d' = None) \<and>
        (s \<noteq> [] \<longrightarrow> (\<exists>ts. toTimestamp h s = Inr ts \<and> d_dischargeDate d' = Some ts))) \<and>
     (\<forall>t. p_medicalHistory data = Some t \<longrightarrow> d_medicalHistory d' = t) \<and>
     (\<forall>ms. p_medications data = Some ms \<longrightarrow> d_medications d' = ms) \<and>
     (\<forall>c. p_careLevel data = Some c \<longrightarrow> d_careLevel d' = c)))"
      if k: "k < length (residents w)"
    proof -
      obtain i d where id: "residents w ! k = (i, d)"
        by (cases "residents w ! k") blast
      have rs: "residents w' = map (\<lambda>(i, d). if i = docId then (i, apply_resident_update u d)
                                               else (i, d)) (residents w)"
        by (simp add: w')
      show ?thesis
      proof (cases "i = docId")
        case True
        have r: "residents w' ! k = (i, apply_resident_update u d)"
          using k id True by (simp add: rs)
        note F = conjI [OF absent_fields_kept [OF u refl, of d] present_fields_written [OF u refl, of d]]
        show ?thesis
          by (rule exI [of _ i], rule exI [of _ d], rule exI [of _ "apply_resident_update u d"],
              rule conjI [OF id], rule conjI [OF r], rule conjI, simp add: True, rule impI, rule F)
      next
        case False
        have r: "residents w' ! k = (i, d)"
          using k id False by (simp add: rs)
        show ?thesis
          by (rule exI [of _ i], rule exI [of _ d], rule exI [of _ d],
              rule conjI [OF id], rule conjI [OF r], rule conjI, simp, simp add: False)
      qed
    qed
    then have c4: "k < length (residents w) \<longrightarrow>
         (\<exists>i d d'. residents w ! k = (i, d) \<and> residents w' ! k = (i, d') \<and>
            (i \<noteq> docId \<longrightarrow> d' = d) \<and>
            (i = docId \<longrightarrow>
     (d_createdAt d' = d_createdAt d \<and> d_updatedAt d' = clock w \<and>
     (p_name data = None \<longrightarrow>
        d_name d' = d_name d \<and> d_lastName d' = d_lastName d \<and> d_firstName d' = d_firstName d) \<and>
     (p_furigana data = None \<longrightarrow>
        d_furigana d' = d_furigana d \<and> d_lastNameKana d' = d_lastNameKana d \<and>
        d_firstNameKana d' = d_firstNameKana d) \<and>
     (p_gender data = None \<longrightarrow> d_gender d' = d_gender d) \<and>
     (p_birthDate data = None \<longrightarrow> d_birthDate d' = d_birthDate d) \<and>
     (p_roomNumber data = None \<longrightarrow> d_roomNumber d' = d_roomNumber d) \<and>
     (p_admissionDate data = None \<longrightarrow> d_admissionDate d' = d_admissionDate d) \<and>
     (p_dischargeDate data = None \<longrightarrow> d_dischargeDate d' = d_dischargeDate d) \<and>
     (p_medicalHistory data = None \<longrightarrow> d_medicalHistory d' = d_medicalHistory d) \<and>
     (p_medications data = None \<longrightarrow> d_medications d' = d_medications d) \<and>
     (p_careLevel data = None \<longrightarrow> d_careLevel d' = d_careLevel d) \<and>
     (\<forall>n. p_name data = Some n \<longrightarrow>
        d_name d' = n \<and> d_lastName d' = part_or_empty (split SPACE n) 0 \<and>
        d_firstName d' = part_or_empty (split SPACE n) 1) \<and>
     (\<forall>f. p_furigana data = Some f \<longrightarrow>
        d_furigana d' = f \<and> d_lastNameKana d' = part_or_empty (split SPACE f) 0 \<and>
        d_firstNameKana d' = part_or_empty (split SPACE f) 1) \<and>
     (\<forall>r. p_roomNumber data = Some r \<longrightarrow> d_roomNumber d' = r)) \<and>
     ((\<forall>g. p_gender data = Some g \<longrightarrow> d_gender d' = g) \<and>
     (\<forall>s. p_birthDate data = Some s \<longrightarrow> toTimestamp h s = Inr (d_birthDate d')) \<and>
     (\<forall>s. p_admissionDate data = Some s \<longrightarrow> toTimestamp h s = Inr (d_admissionDate d')) \<and>
     (\<forall>s. p_dischargeDate data = Some s \<longrightarrow>
        (s = [] \<longrightarrow> d_dischargeDate d' = None) \<and>
        (s \<noteq> [] \<longrightarrow> (\<exists>ts. toTimestamp h s = Inr ts \<and> d_dischargeDate d' = Some ts))) \<and>
     (\<forall>t. p_medicalHistory data = Some t \<longrightarrow> d_medicalHistory d' = t) \<and>
     (\<forall>ms. p_medications data = Some ms \<longrightarrow> d_medications d' = ms) \<and>
     (\<forall>c. p_careLevel data = Some c \<longrightarrow> d_careLevel d' = c))))"
      by (rule impI)
    have c1: "calls w' = calls w @ [UpdateDoc RESIDENTS docId]"
      and c2: "medicalRecords w' = medicalRecords w"
      and c3: "length (residents w') = length (residents w)"
      by (simp_all add: w')
    show ?thesis
      by (rule conjI [OF c1 conjI [OF c2 conjI [OF c3 c4]]])
  qed
  have b: "w'' = w\<lparr>calls := calls w @ [UpdateDoc RESIDENTS docId], faults := tl (faults w),
                residents :=
                  map (\<lambda>(i, d). if i = docId then (i, d\<lparr>d_roomNumber := r, d_updatedAt := clock w\<rparr>)
                                 else (i, d)) (residents w)\<rparr>"
    if "residentService_update h docId (only_roomNumber r) w = (Inr (), w'')"
    using that by (rule only_roomNumber_effect)
  have c: "fst (residentService_update h docId data w) = Inr ()"
    if "next_fault w = None \<and> docId \<in> fst ` set (residents w) \<and>
    (\<forall>s. p_birthDate data = Some s \<longrightarrow> (\<exists>ts. toTimestamp h s = Inr ts)) \<and>
    (\<forall>s. p_admissionDate data = Some s \<longrightarrow> (\<exists>ts. toTimestamp h s = Inr ts)) \<and>
    (\<forall>s. p_dischargeDate data = Some s \<and> s \<noteq> [] \<longrightarrow> (\<exists>ts. toTimestamp h s = Inr ts))"
    using that by (intro resident_update_succeeds) blast+
  show ?thesis
    by (rule conjI, rule impI, rule a, assumption, rule conjI, rule impI, rule b, assumption,
        rule impI, rule c, assumption)
qed


theorem resident_update_frame_witness:
  "fst (residentService_update jst_host [0x0061] every_field (yamada_world\<lparr>clock := 1710060000000\<rparr>)) = Inr () \<and>
   residents (snd (residentService_update jst_host [0x0061] every_field (yamada_world\<lparr>clock := 1710060000000\<rparr>)))
     = [([0x0061], every_field_doc)] \<and>
   fst (residentService_update jst_host [0x0061] (only_roomNumber room_305) (yamada_world\<lparr>clock := 1710060000000\<rparr>)) = Inr () \<and>
   residents (snd (residentService_update jst_host [0x0061] (only_roomNumber room_305) (yamada_world\<lparr>clock := 1710060000000\<rparr>)))
     = [([0x0061], yamada_doc\<lparr>d_roomNumber := room_305, d_updatedAt := 1710060000000\<rparr>)] \<and>
   calls (snd (residentService_update jst_host [0x0061] (only_roomNumber room_305) (yamada_world\<lparr>clock := 1710060000000\<rparr>)))
     = [AddDoc RESIDENTS, UpdateDoc RESIDENTS [0x0061]]"
proof -
  define V where "V = snd (residentService_update jst_host [0x0061] every_field (yamada_world\<lparr>clock := 1710060000000\<rparr>))"
  define W where
    "W = snd (residentService_update jst_host [0x0061] (only_roomNumber room_305) (yamada_world\<lparr>clock := 1710060000000\<rparr>))"
  have w: "next_fault (yamada_world\<lparr>clock := 1710060000000\<rparr>) = None" "[0x0061] \<in> fst ` set (residents (yamada_world\<lparr>clock := 1710060000000\<rparr>))"
    "residents (yamada_world\<lparr>clock := 1710060000000\<rparr>) = [([0x0061], yamada_doc)]" "clock (yamada_world\<lparr>clock := 1710060000000\<rparr>) = 1710060000000"
    "calls (yamada_world\<lparr>clock := 1710060000000\<rparr>) = [AddDoc RESIDENTS]" "faults (yamada_world\<lparr>clock := 1710060000000\<rparr>) = []"
    by (simp_all add: yamada_world_def next_fault_def)
  have ts: "toTimestamp jst_host [0x31, 0x39, 0x33, 0x35, 0x2D, 0x30, 0x35, 0x2D, 0x30, 0x36]
              = Inr (- 1093737600000)"
    "toTimestamp jst_host date_2024_03_11 = Inr 1710115200000"
    by code_simp+
  have ne: "date_2024_03_11 \<noteq> []"
    by (simp add: date_2024_03_11_def)
  note T = resident_update_frame [of jst_host "[0x0061]" every_field "(yamada_world\<lparr>clock := 1710060000000\<rparr>)" V 0 room_305 W]
  have s1: "fst (residentService_update jst_host [0x0061] every_field (yamada_world\<lparr>clock := 1710060000000\<rparr>)) = Inr ()"
    by (rule mp [OF conjunct2 [OF conjunct2 [OF T]]]) (simp add: w every_field_def ts)
  then have ok1: "residentService_update jst_host [0x0061] every_field (yamada_world\<lparr>clock := 1710060000000\<rparr>) = (Inr (), V)"
    unfolding V_def by (metis prod.collapse)
  note U = resident_update_frame [of jst_host "[0x0061]" "only_roomNumber room_305" "(yamada_world\<lparr>clock := 1710060000000\<rparr>)" W 0
      room_305 W]
  have s2: "fst (residentService_update jst_host [0x0061] (only_roomNumber room_305) (yamada_world\<lparr>clock := 1710060000000\<rparr>)) = Inr ()"
    by (rule mp [OF conjunct2 [OF conjunct2 [OF U]]]) (simp add: w only_roomNumber_def)
  then have ok2: "residentService_update jst_host [0x0061] (only_roomNumber room_305) (yamada_world\<lparr>clock := 1710060000000\<rparr>)
      = (Inr (), W)"
    unfolding W_def by (metis prod.collapse)
  from mp [OF conjunct1 [OF conjunct2 [OF U]] ok2]
  have W: "residents W
      = [([0x0061], yamada_doc\<lparr>d_roomNumber := room_305, d_updatedAt := 1710060000000\<rparr>)]"
    "calls W = [AddDoc RESIDENTS, UpdateDoc RESIDENTS [0x0061]]"
    by (simp_all add: w)
  from mp [OF conjunct1 [OF T] ok1] have
    len: "length (residents V) = length (residents (yamada_world\<lparr>clock := 1710060000000\<rparr>))" and
    ex: "0 < length (residents (yamada_world\<lparr>clock := 1710060000000\<rparr>)) \<longrightarrow>
           (\<exists>i d d'. residents (yamada_world\<lparr>clock := 1710060000000\<rparr>) ! 0 = (i, d) \<and> residents V ! 0 = (i, d') \<and>
              (i \<noteq> [0x0061] \<longrightarrow> d' = d) \<and>
              (i = [0x0061] \<longrightarrow> (d_createdAt d' = d_createdAt d \<and> d_updatedAt d' = clock (yamada_world\<lparr>clock := 1710060000000\<rparr>) \<and>
     (p_name every_field = None \<longrightarrow>
        d_name d' = d_name d \<and> d_lastName d' = d_lastName d \<and> d_firstName d' = d_firstName d) \<and>
     (p_furigana every_field = None \<longrightarrow>
        d_furigana d' = d_furigana d \<and> d_lastNameKana d' = d_lastNameKana d \<and>
        d_firstNameKana d' = d_firstNameKana d) \<and>
     (p_gender every_field = None \<longrightarrow> d_gender d' = d_gender d) \<and>
     (p_birthDate every_field = None \<longrightarrow> d_birthDate d' = d_birthDate d) \<and>
     (p_roomNumber every_field = None \<longrightarrow> d_roomNumber d' = d_roomNumber d) \<and>
     (p_admissionDate every_field = None \<longrightarrow> d_admissionDate d' = d_admissionDate d) \<and>
     (p_dischargeDate every_field = None \<longrightarrow> d_dischargeDate d' = d_dischargeDate d) \<and>
     (p_medicalHistory every_field = None \<longrightarrow> d_medicalHistory d' = d_medicalHistory d) \<and>
     (p_medications every_field = None \<longrightarrow> d_medications d' = d_medications d) \<and>
     (p_careLevel every_field = None \<longrightarrow> d_careLevel d' = d_careLevel d) \<and>
     (\<forall>n. p_name every_field = Some n \<longrightarrow>
        d_name d' = n \<and> d_lastName d' = part_or_empty (split SPACE n) 0 \<and>
        d_firstName d' = part_or_empty (split SPACE n) 1) \<and>
     (\<forall>f. p_furigana every_field = Some f \<longrightarrow>
        d_furigana d' = f \<and> d_lastNameKana d' = part_or_empty (split SPACE f) 0 \<and>
        d_firstNameKana d' = part_or_empty (split SPACE f) 1) \<and>
     (\<forall>r. p_roomNumber every_field = Some r \<longrightarrow> d_roomNumber d' = r)) \<and>
     ((\<forall>g. p_gender every_field = Some g \<longrightarrow> d_gender d' = g) \<and>
     (\<forall>s. p_birthDate every_field = Some s \<longrightarrow> toTimestamp jst_host s = Inr (d_birthDate d')) \<and>
     (\<forall>s. p_admissionDate every_field = Some s \<longrightarrow> toTimestamp jst_host s = Inr (d_admissionDate d')) \<and>
     (\<forall>s. p_dischargeDate every_field = Some s \<longrightarrow>
        (s = [] \<longrightarrow> d_dischargeDate d' = None) \<and>
        (s \<noteq> [] \<longrightarrow> (\<exists>ts. toTimestamp jst_host s = Inr ts \<and> d_dischargeDate d' = Some ts))) \<and>
     (\<forall>t. p_medicalHistory every_field = Some t \<longrightarrow> d_medicalHistory d' = t) \<and>
     (\<forall>ms. p_medications every_field = Some ms \<longrightarrow> d_medications d' = ms) \<and>
     (\<forall>c. p_careLevel every_field = Some c \<longrightarrow> d_careLevel d' = c))))"
    by (rule conjunct1 [OF conjunct2 [OF conjunct2]], rule conjunct2 [OF conjunct2 [OF conjunct2]])
  from ex have "\<exists>d'. residents V ! 0 = ([0x0061], d') \<and>
     ((d_createdAt d' = d_createdAt yamada_doc \<and> d_updatedAt d' = clock (yamada_world\<lparr>clock := 1710060000000\<rparr>) \<and>
     (p_name every_field = None \<longrightarrow>
        d_name d' = d_name yamada_doc \<and> d_lastName d' = d_lastName yamada_doc \<and> d_firstName d' = d_firstName yamada_doc) \<and>
     (p_furigana every_field = None \<longrightarrow>
        d_furigana d' = d_furigana yamada_doc \<and> d_lastNameKana d' = d_lastNameKana yamada_doc \<and>
        d_firstNameKana d' = d_firstNameKana yamada_doc) \<and>
     (p_gender every_field = None \<longrightarrow> d_gender d' = d_gender yamada_doc) \<and>
     (p_birthDate every_field = None \<longrightarrow> d_birthDate d' = d_birthDate yamada_doc) \<and>
     (p_roomNumber every_field = None \<longrightarrow> d_roomNumber d' = d_roomNumber yamada_doc) \<and>
     (p_admissionDate every_field = None \<longrightarrow> d_admissionDate d' = d_admissionDate yamada_doc) \<and>
     (p_dischargeDate every_field = None \<longrightarrow> d_dischargeDate d' = d_dischargeDate yamada_doc) \<and>
     (p_medicalHistory every_field = None \<longrightarrow> d_medicalHistory d' = d_medicalHistory yamada_doc) \<and>
     (p_medications every_field = None \<longrightarrow> d_medications d' = d_medications yamada_doc) \<and>
     (p_careLevel every_field = None \<longrightarrow> d_careLevel d' = d_careLevel yamada_doc) \<and>
     (\<forall>n. p_name every_field = Some n \<longrightarrow>
        d_name d' = n \<and> d_lastName d' = part_or_empty (split SPACE n) 0 \<and>
        d_firstName d' = part_or_empty (split SPACE n) 1) \<and>
     (\<forall>f. p_furigana every_field = Some f \<longrightarrow>
        d_furigana d' = f \<and> d_lastNameKana d' = part_or_empty (split SPACE f) 0 \<and>
        d_firstNameKana d' = part_or_empty (split SPACE f) 1) \<and>
     (\<forall>r. p_roomNumber every_field = Some r \<longrightarrow> d_roomNumber d' = r)) \<and>
     ((\<forall>g. p_gender every_field = Some g \<longrightarrow> d_gender d' = g) \<and>
     (\<forall>s. p_birthDate every_field = Some s \<longrightarrow> toTimestamp jst_host s = Inr (d_birthDate d')) \<and>
     (\<forall>s. p_admissionDate every_field = Some s \<longrightarrow> toTimestamp jst_host s = Inr (d_admissionDate d')) \<and>
     (\<forall>s. p_dischargeDate every_field = Some s \<longrightarrow>
        (s = [] \<longrightarrow> d_dischargeDate d' = None) \<and>
        (s \<noteq> [] \<longrightarrow> (\<exists>ts. toTimestamp jst_host s = Inr ts \<and> d_dischargeDate d' = Some ts))) \<and>
     (\<forall>t. p_medicalHistory every_field = Some t \<longrightarrow> d_medicalHistory d' = t) \<and>
     (\<forall>ms. p_medications every_field = Some ms \<longrightarrow> d_medications d' = ms) \<and>
     (\<forall>c. p_careLevel every_field = Some c \<longrightarrow> d_careLevel d' = c)))"
    by (simp add: w)
  then obtain d' where dv: "residents V ! 0 = ([0x0061], d') \<and>
     ((d_createdAt d' = d_createdAt yamada_doc \<and> d_updatedAt d' = clock (yamada_world\<lparr>clock := 1710060000000\<rparr>) \<and>
     (p_name every_field = None \<longrightarrow>
        d_name d' = d_name yamada_doc \<and> d_lastName d' = d_lastName yamada_doc \<and> d_firstName d' = d_firstName yamada_doc) \<and>
     (p_furigana every_field = None \<longrightarrow>
        d_furigana d' = d_furigana yamada_doc \<and> d_lastNameKana d' = d_lastNameKana yamada_doc \<and>
        d_firstNameKana d' = d_firstNameKana yamada_doc) \<and>
     (p_gender every_field = None \<longrightarrow> d_gender d' = d_gender yamada_doc) \<and>
     (p_birthDate every_field = None \<longrightarrow> d_birthDate d' = d_birthDate yamada_doc) \<and>
     (p_roomNumber every_field = None \<longrightarrow> d_roomNumber d' = d_roomNumber yamada_doc) \<and>
     (p_admissionDate every_field = None \<longrightarrow> d_admissionDate d' = d_admissionDate yamada_doc) \<and>
     (p_dischargeDate every_field = None \<longrightarrow> d_dischargeDate d' = d_dischargeDate yamada_doc) \<and>
     (p_medicalHistory every_field = None \<longrightarrow> d_medicalHistory d' = d_medicalHistory yamada_doc) \<and>
     (p_medications every_field = None \<longrightarrow> d_medications d' = d_medications yamada_doc) \<and>
     (p_careLevel every_field = None \<longrightarrow> d_careLevel d' = d_careLevel yamada_doc) \<and>
     (\<forall>n. p_name every_field = Some n \<longrightarrow>
        d_name d' = n \<and> d_lastName d' = part_or_empty (split SPACE n) 0 \<and>
        d_firstName d' = part_or_empty (split SPACE n) 1) \<and>
     (\<forall>f. p_furigana every_field = Some f \<longrightarrow>
        d_furigana d' = f \<and> d_lastNameKana d' = part_or_empty (split SPACE f) 0 \<and>
        d_firstNameKana d' = part_or_empty (split SPACE f) 1) \<and>
     (\<forall>r. p_roomNumber every_field = Some r \<longrightarrow> d_roomNumber d' = r)) \<and>
     ((\<forall>g. p_gender every_field = Some g \<longrightarrow> d_gender d' = g) \<and>
     (\<forall>s. p_birthDate every_field = Some s \<longrightarrow> toTimestamp jst_host s = Inr (d_birthDate d')) \<and>
     (\<forall>s. p_admissionDate every_field = Some s \<longrightarrow> toTimestamp jst_host s = Inr (d_admissionDate d')) \<and>
     (\<forall>s. p_dischargeDate every_field = Some s \<longrightarrow>
        (s = [] \<longrightarrow> d_dischargeDate d' = None) \<and>
        (s \<noteq> [] \<longrightarrow> (\<exists>ts. toTimestamp jst_host s = Inr ts \<and> d_dischargeDate d' = Some ts))) \<and>
     (\<forall>t. p_medicalHistory every_field = Some t \<longrightarrow> d_medicalHistory d' = t) \<and>
     (\<forall>ms. p_medications every_field = Some ms \<longrightarrow> d_medications d' = ms) \<and>
     (\<forall>c. p_careLevel every_field = Some c \<longrightarrow> d_careLevel d' = c)))"
    by (rule exE)
  note v0 = conjunct1 [OF dv] and f = conjunct2 [OF dv]
  have "d' = every_field_doc"
    using f
    by (intro resident_doc.equality)
      (simp_all add: every_field_def every_field_doc_def yamada_doc_def w ts ne
        part_or_empty_def)
  moreover have "residents V = [residents V ! 0]"
    using len by (cases "residents V") (simp_all add: w)
  ultimately have V: "residents V = [([0x0061], every_field_doc)]"
    using v0 by simp
  show ?thesis
    using s1 s2 V W unfolding V_def W_def by simp
qed

section \<open>Search by name\<close>

lemma getDocs_residents_snd:
  "snd (getDocs_residents q w) = storage_call (GetDocs RESIDENTS q) w"
  by (simp add: getDocs_residents_def Let_def split: option.splits)

lemma getDocs_residents_fst:
  "fst (getDocs_residents q w) =
     (case next_fault w of Some e \<Rightarrow> Inl e
      | None \<Rightarrow> Inr (run_query resident_field q (residents w)))"
  by (simp add: getDocs_residents_def Let_def split: option.splits)

lemma getDocs_each_Cons:
  "getDocs_each (q # qs) w =
     (fst (getDocs_residents q w) # fst (getDocs_each qs (storage_call (GetDocs RESIDENTS q) w)),
      snd (getDocs_each qs (storage_call (GetDocs RESIDENTS q) w)))"
  using getDocs_residents_snd [of q w]
  by (auto split: prod.splits)

lemma getDocs_each_snd:
  "snd (getDocs_each qs w) =
     w\<lparr>calls := calls w @ map (GetDocs RESIDENTS) qs, faults := drop (length qs) (faults w)\<rparr>"
proof (induction qs arbitrary: w)
  case Nil
  show ?case by simp
next
  case (Cons q qs)
  show ?case
    unfolding getDocs_each_Cons snd_conv Cons.IH
    by (simp add: storage_call_def drop_Suc)
qed

lemma getDocs_each_fst:
  "Promise_all (fst (getDocs_each qs w)) = Inr snaps \<Longrightarrow>
   snaps = map (\<lambda>q. run_query resident_field q (residents w)) qs"
proof (induction qs arbitrary: w snaps)
  case Nil
  then show ?case by simp
next
  case (Cons q qs)
  have r: "residents (storage_call (GetDocs RESIDENTS q) w) = residents w"
    by (simp add: storage_call_def)
  from Cons.prems show ?case
    unfolding getDocs_each_Cons fst_conv getDocs_residents_fst
    by (auto split: option.splits sum.splits dest!: Cons.IH simp: r)
qed

lemma getDocs_each_ok:
  "\<forall>f \<in> set (take (length qs) (faults w)). f = None \<Longrightarrow>
   \<exists>snaps. Promise_all (fst (getDocs_each qs w)) = Inr snaps"
proof (induction qs arbitrary: w)
  case Nil
  then show ?case by simp
next
  case (Cons q qs)
  have nf: "next_fault w = None"
    using Cons.prems by (cases "faults w") (auto simp: next_fault_def)
  have "\<forall>f \<in> set (take (length qs) (faults (storage_call (GetDocs RESIDENTS q) w))). f = None"
    using Cons.prems by (cases "faults w") (auto simp: storage_call_def)
  from Cons.IH [OF this] obtain snaps where
    "Promise_all (fst (getDocs_each qs (storage_call (GetDocs RESIDENTS q) w))) = Inr snaps"
    by blast
  then show ?case
    unfolding getDocs_each_Cons fst_conv getDocs_residents_fst
    by (simp add: nf)
qed


lemma range_query_result:
  "run_query resident_field [Where f GE (VStr a), Where f LE (VStr b)] docs =
     filter (\<lambda>(i, d). satisfies (resident_field f d) GE (VStr a) \<and>
                       satisfies (resident_field f d) LE (VStr b)) docs"
  by (simp add: run_query_def)

lemma range_filters:
  "satisfies (resident_field ''name'' d) GE (VStr q) \<and>
   satisfies (resident_field ''name'' d) LE (VStr (q @ [0xF8FF])) \<longleftrightarrow> in_closed_range q (d_name d)"
  "satisfies (resident_field ''lastName'' d) GE (VStr q) \<and>
   satisfies (resident_field ''lastName'' d) LE (VStr (q @ [0xF8FF])) \<longleftrightarrow>
     in_closed_range q (d_lastName d)"
  "satisfies (resident_field ''firstName'' d) GE (VStr q) \<and>
   satisfies (resident_field ''firstName'' d) LE (VStr (q @ [0xF8FF])) \<longleftrightarrow>
     in_closed_range q (d_firstName d)"
  "satisfies (resident_field ''furigana'' d) GE (VStr q) \<and>
   satisfies (resident_field ''furigana'' d) LE (VStr (q @ [0xF8FF])) \<longleftrightarrow>
     in_closed_range q (d_furigana d)"
  "satisfies (resident_field ''lastNameKana'' d) GE (VStr q) \<and>
   satisfies (resident_field ''lastNameKana'' d) LE (VStr (q @ [0xF8FF])) \<longleftrightarrow>
     in_closed_range q (d_lastNameKana d)"
  "satisfies (resident_field ''firstNameKana'' d) GE (VStr q) \<and>
   satisfies (resident_field ''firstNameKana'' d) LE (VStr (q @ [0xF8FF])) \<longleftrightarrow>
     in_closed_range q (d_firstNameKana d)"
  by (simp_all add: resident_field_def in_closed_range_def)

lemma map_set_key_set: "fst ` set (map_set k v m) = insert k (fst ` set m)"
  by (induction k v m rule: map_set.induct) auto

lemma map_set_distinct: "distinct (map fst (map_set k v m)) = distinct (map fst m)"
  by (induction k v m rule: map_set.induct) (auto simp: map_set_key_set)

lemma map_set_entries: "e \<in> set (map_set k v m) \<Longrightarrow> e = (k, v) \<or> e \<in> set m"
  by (induction k v m rule: map_set.induct) (auto split: if_splits)

lemma convert_id: "r_id (convertResidentData i d) = i"
  by (simp add: convertResidentData_def Let_def)

lemma convert_name: "r_name (convertResidentData i d) = d_name d"
  by (simp add: convertResidentData_def Let_def)

lemma merged_residents:
  assumes "distinct (map fst m)"
    and "\<forall>(k, v) \<in> set m. \<exists>d. (k, d) \<in> S \<and> v = convertResidentData k d"
    and "set xs \<subseteq> S"
  shows "distinct (map fst (foldl (\<lambda>m (i, d). map_set (r_id (convertResidentData i d))
                                          (convertResidentData i d) m) m xs)) \<and>
         set (map fst (foldl (\<lambda>m (i, d). map_set (r_id (convertResidentData i d))
                                       (convertResidentData i d) m) m xs))
           = set (map fst m) \<union> set (map fst xs) \<and>
         (\<forall>(k, v) \<in> set (foldl (\<lambda>m (i, d). map_set (r_id (convertResidentData i d))
                                       (convertResidentData i d) m) m xs).
            \<exists>d. (k, d) \<in> S \<and> v = convertResidentData k d)"
  using assms
proof (induction xs arbitrary: m)
  case Nil
  then show ?case by simp
next
  case (Cons x xs)
  obtain i d where x: "x = (i, d)"
    by (cases x) blast
  let ?m = "map_set i (convertResidentData i d) m"
  have 1: "distinct (map fst ?m)"
    using Cons.prems(1) by (simp add: map_set_distinct)
  have 2: "\<forall>(k, v) \<in> set ?m. \<exists>d. (k, d) \<in> S \<and> v = convertResidentData k d"
    using Cons.prems(2,3) x by (auto dest!: map_set_entries)
  have 3: "set xs \<subseteq> S"
    using Cons.prems(3) by simp
  from Cons.IH [OF 1 2 3] show ?case
    by (simp add: x convert_id map_set_key_set)
qed

lemma insert_by_set: "set (insert_by cmp x ys) = insert x (set ys)"
  by (induction ys) auto

lemma js_sort_Cons: "js_sort cmp (x # xs) = insert_by cmp x (js_sort cmp xs)"
  by (simp add: js_sort_def)

lemma js_sort_set: "set (js_sort cmp xs) = set xs"
  by (induction xs) (simp_all add: js_sort_Cons insert_by_set, simp add: js_sort_def)

lemma insert_by_distinct:
  "distinct (map f (insert_by cmp x ys)) \<longleftrightarrow> f x \<notin> f ` set ys \<and> distinct (map f ys)"
  by (induction ys) (auto simp: insert_by_set)

lemma js_sort_distinct: "distinct (map f (js_sort cmp xs)) = distinct (map f xs)"
proof (induction xs)
  case Nil
  show ?case by (simp add: js_sort_def)
next
  case (Cons x xs)
  then show ?case
    by (simp add: js_sort_Cons insert_by_distinct js_sort_set)
qed

lemma insert_by_sorted:
  assumes trans: "\<And>a b c. cmp a b \<le> 0 \<Longrightarrow> cmp b c \<le> 0 \<Longrightarrow> cmp a c \<le> 0"
    and total: "\<And>a b. cmp a b \<le> 0 \<or> cmp b a \<le> 0"
  shows "sorted_wrt (\<lambda>a b. cmp a b \<le> 0) ys \<Longrightarrow>
         sorted_wrt (\<lambda>a b. cmp a b \<le> (0::int)) (insert_by cmp x ys)"
proof (induction ys)
  case Nil
  show ?case by simp
next
  case (Cons y ys)
  show ?case
  proof (cases "cmp x y \<le> 0")
    case True
    with Cons.prems trans show ?thesis
      by (auto)
  next
    case False
    with total have "cmp y x \<le> 0"
      by blast
    with False Cons show ?thesis
      by (auto simp: insert_by_set)
  qed
qed

lemma js_sort_sorted:
  assumes "\<And>a b c. cmp a b \<le> 0 \<Longrightarrow> cmp b c \<le> 0 \<Longrightarrow> cmp a c \<le> 0"
    and "\<And>a b. cmp a b \<le> 0 \<or> cmp b a \<le> 0"
  shows "sorted_wrt (\<lambda>a b. cmp a b \<le> (0::int)) (js_sort cmp xs)"
proof (induction xs)
  case Nil
  show ?case by (simp add: js_sort_def)
next
  case (Cons x xs)
  show ?case
    unfolding js_sort_Cons using assms Cons by (rule insert_by_sorted)
qed


lemma searchByName_unfold:
  assumes "trim name \<noteq> []"
  shows "searchByName h name w =
     (case Promise_all (fst (getDocs_each
                 [[Where ''name'' GE (VStr (trim name)),
                   Where ''name'' LE (VStr (trim name @ [0xF8FF]))],
                  [Where ''lastName'' GE (VStr (trim name)),
                   Where ''lastName'' LE (VStr (trim name @ [0xF8FF]))],
                  [Where ''firstName'' GE (VStr (trim name)),
                   Where ''firstName'' LE (VStr (trim name @ [0xF8FF]))],
                  [Where ''furigana'' GE (VStr (convertHiraganaToKatakana (trim name))),
                   Where ''furigana'' LE (VStr (convertHiraganaToKatakana (trim name) @ [0xF8FF]))],
                  [Where ''lastNameKana'' GE (VStr (convertHiraganaToKatakana (trim name))),
                   Where ''lastNameKana'' LE (VStr (convertHiraganaToKatakana (trim name) @ [0xF8FF]))],
                  [Where ''firstNameKana'' GE (VStr (convertHiraganaToKatakana (trim name))),
                   Where ''firstNameKana'' LE (VStr (convertHiraganaToKatakana (trim name) @ [0xF8FF]))]] w)) of
        Inl e \<Rightarrow> (Inl e, snd (getDocs_each
                 [[Where ''name'' GE (VStr (trim name)),
                   Where ''name'' LE (VStr (trim name @ [0xF8FF]))],
                  [Where ''lastName'' GE (VStr (trim name)),
                   Where ''lastName'' LE (VStr (trim name @ [0xF8FF]))],
                  [Where ''firstName'' GE (VStr (trim name)),
                   Where ''firstName'' LE (VStr (trim name @ [0xF8FF]))],
                  [Where ''furigana'' GE (VStr (convertHiraganaToKatakana (trim name))),
                   Where ''furigana'' LE (VStr (convertHiraganaToKatakana (trim name) @ [0xF8FF]))],
                  [Where ''lastNameKana'' GE (VStr (convertHiraganaToKatakana (trim name))),
                   Where ''lastNameKana'' LE (VStr (convertHiraganaToKatakana (trim name) @ [0xF8FF]))],
                  [Where ''firstNameKana'' GE (VStr (convertHiraganaToKatakana (trim name))),
                   Where ''firstNameKana'' LE (VStr (convertHiraganaToKatakana (trim name) @ [0xF8FF]))]] w))
      | Inr snapshots \<Rightarrow>
          (Inr (js_sort (\<lambda>a b. localeCompare h (r_name a) (r_name b))
                  (map_values (foldl (\<lambda>m (i, d). map_set (r_id (convertResidentData i d))
                                                  (convertResidentData i d) m)
                                 [] (concat snapshots)))),
           snd (getDocs_each
                 [[Where ''name'' GE (VStr (trim name)),
                   Where ''name'' LE (VStr (trim name @ [0xF8FF]))],
                  [Where ''lastName'' GE (VStr (trim name)),
                   Where ''lastName'' LE (VStr (trim name @ [0xF8FF]))],
                  [Where ''firstName'' GE (VStr (trim name)),
                   Where ''firstName'' LE (VStr (trim name @ [0xF8FF]))],
                  [Where ''furigana'' GE (VStr (convertHiraganaToKatakana (trim name))),
                   Where ''furigana'' LE (VStr (convertHiraganaToKatakana (trim name) @ [0xF8FF]))],
                  [Where ''lastNameKana'' GE (VStr (convertHiraganaToKatakana (trim name))),
                   Where ''lastNameKana'' LE (VStr (convertHiraganaToKatakana (trim name) @ [0xF8FF]))],
                  [Where ''firstNameKana'' GE (VStr (convertHiraganaToKatakana (trim name))),
                   Where ''firstNameKana'' LE (VStr (convertHiraganaToKatakana (trim name) @ [0xF8FF]))]] w)))"
  using assms by (simp add: searchByName_def Let_def split: prod.splits sum.splits)

lemma six_snapshots:
  "set (concat (map (\<lambda>q. run_query resident_field q docs)
                 [[Where ''name'' GE (VStr (trim name)),
                   Where ''name'' LE (VStr (trim name @ [0xF8FF]))],
                  [Where ''lastName'' GE (VStr (trim name)),
                   Where ''lastName'' LE (VStr (trim name @ [0xF8FF]))],
                  [Where ''firstName'' GE (VStr (trim name)),
                   Where ''firstName'' LE (VStr (trim name @ [0xF8FF]))],
                  [Where ''furigana'' GE (VStr (convertHiraganaToKatakana (trim name))),
                   Where ''furigana'' LE (VStr (convertHiraganaToKatakana (trim name) @ [0xF8FF]))],
                  [Where ''lastNameKana'' GE (VStr (convertHiraganaToKatakana (trim name))),
                   Where ''lastNameKana'' LE (VStr (convertHiraganaToKatakana (trim name) @ [0xF8FF]))],
                  [Where ''firstNameKana'' GE (VStr (convertHiraganaToKatakana (trim name))),
                   Where ''firstNameKana'' LE (VStr (convertHiraganaToKatakana (trim name) @ [0xF8FF]))]]))
   = {(i, d). (i, d) \<in> set docs \<and> matched_by (trim name) d}"
  unfolding matched_by_def range_filters [symmetric]
  by (auto simp: range_query_result)


text \<open>
  Claim C2, as the code has it. For a query that is not blank, \<open>searchByName\<close> sends
  exactly six queries to the store, in this order: on \<open>name\<close>, \<open>lastName\<close> and
  \<open>firstName\<close> with the trimmed query, and on \<open>furigana\<close>, \<open>lastNameKana\<close> and
  \<open>firstNameKana\<close> with the trimmed query converted to katakana; each keeps the stored
  values of the closed range from the term to the term followed by U+F8FF, both ends
  included. When the search returns a list, no resident identifier occurs in it twice,
  its identifiers are exactly those of the stored residents matched by at least one of
  the six ranges, and each entry is the conversion of a stored document with that
  identifier. The search returns a list whenever the store answers the six queries.
\<close>

theorem searchByName_fan_out:
  assumes "trim name \<noteq> []"
  shows
    "calls (snd (searchByName h name w)) =
       calls w @
         [range_query ''name'' (trim name), range_query ''lastName'' (trim name),
          range_query ''firstName'' (trim name),
          range_query ''furigana'' (convertHiraganaToKatakana (trim name)),
          range_query ''lastNameKana'' (convertHiraganaToKatakana (trim name)),
          range_query ''firstNameKana'' (convertHiraganaToKatakana (trim name))] \<and>
     (\<forall>rs. fst (searchByName h name w) = Inr rs \<longrightarrow>
        distinct (map r_id rs) \<and>
        set (map r_id rs) = {i. \<exists>d. (i, d) \<in> set (residents w) \<and> matched_by (trim name) d} \<and>
        (\<forall>r \<in> set rs. \<exists>d. (r_id r, d) \<in> set (residents w) \<and>
                          r = convertResidentData (r_id r) d)) \<and>
     ((\<forall>f \<in> set (take 6 (faults w)). f = None) \<longrightarrow>
        (\<exists>rs. fst (searchByName h name w) = Inr rs))"
proof -
  let ?qs = "[[Where ''name'' GE (VStr (trim name)),
                   Where ''name'' LE (VStr (trim name @ [0xF8FF]))],
                  [Where ''lastName'' GE (VStr (trim name)),
                   Where ''lastName'' LE (VStr (trim name @ [0xF8FF]))],
                  [Where ''firstName'' GE (VStr (trim name)),
                   Where ''firstName'' LE (VStr (trim name @ [0xF8FF]))],
                  [Where ''furigana'' GE (VStr (convertHiraganaToKatakana (trim name))),
                   Where ''furigana'' LE (VStr (convertHiraganaToKatakana (trim name) @ [0xF8FF]))],
                  [Where ''lastNameKana'' GE (VStr (convertHiraganaToKatakana (trim name))),
                   Where ''lastNameKana'' LE (VStr (convertHiraganaToKatakana (trim name) @ [0xF8FF]))],
                  [Where ''firstNameKana'' GE (VStr (convertHiraganaToKatakana (trim name))),
                   Where ''firstNameKana'' LE (VStr (convertHiraganaToKatakana (trim name) @ [0xF8FF]))]]"
  let ?F = "\<lambda>m (i, d). map_set (r_id (convertResidentData i d)) (convertResidentData i d) m"
  note u = searchByName_unfold [OF assms, of h w]
  have "snd (searchByName h name w) = snd (getDocs_each ?qs w)"
    unfolding u by (simp split: sum.splits del: getDocs_each.simps)
  then have calls: "calls (snd (searchByName h name w)) =
       calls w @
         [range_query ''name'' (trim name), range_query ''lastName'' (trim name),
          range_query ''firstName'' (trim name),
          range_query ''furigana'' (convertHiraganaToKatakana (trim name)),
          range_query ''lastNameKana'' (convertHiraganaToKatakana (trim name)),
          range_query ''firstNameKana'' (convertHiraganaToKatakana (trim name))]"
    unfolding getDocs_each_snd range_query_def by simp
  have result: "distinct (map r_id rs) \<and>
        set (map r_id rs) = {i. \<exists>d. (i, d) \<in> set (residents w) \<and> matched_by (trim name) d} \<and>
        (\<forall>r \<in> set rs. \<exists>d. (r_id r, d) \<in> set (residents w) \<and>
                          r = convertResidentData (r_id r) d)"
    if ok: "fst (searchByName h name w) = Inr rs" for rs
  proof -
    from ok obtain snaps where
      p: "Promise_all (fst (getDocs_each ?qs w)) = Inr snaps" and
      rs: "rs = js_sort (\<lambda>a b. localeCompare h (r_name a) (r_name b))
                  (map_values (foldl ?F [] (concat snaps)))"
      unfolding u by (auto split: sum.splits simp del: getDocs_each.simps)
    define m where "m = foldl ?F [] (concat snaps)"
    have snaps: "snaps = map (\<lambda>q. run_query resident_field q (residents w)) ?qs"
      using p by (rule getDocs_each_fst)
    have docs: "set (concat snaps) = {(i, d). (i, d) \<in> set (residents w) \<and> matched_by (trim name) d}"
      unfolding snaps by (rule six_snapshots)
    then have sub: "set (concat snaps) \<subseteq> set (residents w)"
      by auto
    have "distinct (map fst ([] :: (jsstring \<times> Resident) list))"
      "\<forall>(k, v) \<in> set ([] :: (jsstring \<times> Resident) list).
         \<exists>d. (k, d) \<in> set (residents w) \<and> v = convertResidentData k d"
      by simp_all
    from merged_residents [OF this sub] have
      m1: "distinct (map fst m)" and
      m2: "set (map fst m) = set (map fst (concat snaps))" and
      m3: "\<forall>(k, v) \<in> set m. \<exists>d. (k, d) \<in> set (residents w) \<and> v = convertResidentData k d"
      unfolding m_def by simp_all
    have ids: "map r_id (map_values m) = map fst m"
      unfolding map_values_def using m3 by (induction m) (auto simp: convert_id)
    have keys: "set (map fst (concat snaps))
        = {i. \<exists>d. (i, d) \<in> set (residents w) \<and> matched_by (trim name) d}"
      unfolding set_map docs by force
    have vals: "\<exists>d. (r_id r, d) \<in> set (residents w) \<and> r = convertResidentData (r_id r) d"
      if "r \<in> set (map_values m)" for r
      using that m3 unfolding map_values_def by (force simp: convert_id)
    have "distinct (map r_id rs)"
      unfolding rs m_def [symmetric] js_sort_distinct ids by (rule m1)
    moreover have "set (map r_id rs)
        = {i. \<exists>d. (i, d) \<in> set (residents w) \<and> matched_by (trim name) d}"
      unfolding rs m_def [symmetric] set_map js_sort_set
      using ids m2 keys by (metis set_map)
    moreover have "\<forall>r \<in> set rs. \<exists>d. (r_id r, d) \<in> set (residents w) \<and>
                          r = convertResidentData (r_id r) d"
      unfolding rs m_def [symmetric] js_sort_set using vals by blast
    ultimately show ?thesis
      by blast
  qed
  have succeeds: "\<exists>rs. fst (searchByName h name w) = Inr rs"
    if "\<forall>f \<in> set (take 6 (faults w)). f = None"
  proof -
    have "length ?qs = 6"
      by simp
    with that have "\<forall>f \<in> set (take (length ?qs) (faults w)). f = None"
      by (simp only:)
    from getDocs_each_ok [OF this] show ?thesis
      unfolding u by (auto simp del: getDocs_each.simps)
  qed
  from calls result succeeds show ?thesis
    by blast
qed


theorem searchByName_fan_out_witness:
  "trim [0x305F, 0x306A, 0x304B] \<noteq> [] \<and>
   calls (snd (searchByName jst_host [0x305F, 0x306A, 0x304B] search_world)) =
     [range_query ''name'' [0x305F, 0x306A, 0x304B],
      range_query ''lastName'' [0x305F, 0x306A, 0x304B],
      range_query ''firstName'' [0x305F, 0x306A, 0x304B],
      range_query ''furigana'' [0x30BF, 0x30CA, 0x30AB],
      range_query ''lastNameKana'' [0x30BF, 0x30CA, 0x30AB],
      range_query ''firstNameKana'' [0x30BF, 0x30CA, 0x30AB]] \<and>
   fst (searchByName jst_host [0x305F, 0x306A, 0x304B] search_world)
     = Inr [convertResidentData [0x0061, 0x0061] tanaka_doc] \<and>
   in_closed_range [0x30BF, 0x30CA, 0x30AB] (d_furigana tanaka_doc) \<and>
   in_closed_range [0x30BF, 0x30CA, 0x30AB] (d_lastNameKana tanaka_doc) \<and>
   {i. \<exists>d. (i, d) \<in> set (residents search_world) \<and> matched_by [0x305F, 0x306A, 0x304B] d}
     = {[0x0061, 0x0061]}"
proof -
  have t: "trim [0x305F, 0x306A, 0x304B] = [0x305F, 0x306A, 0x304B]"
    by code_simp
  have k: "convertHiraganaToKatakana [0x305F, 0x306A, 0x304B] = [0x30BF, 0x30CA, 0x30AB]"
    by code_simp
  have r: "fst (searchByName jst_host [0x305F, 0x306A, 0x304B] search_world)
     = Inr [convertResidentData [0x0061, 0x0061] tanaka_doc]"
    by code_simp
  have twice: "in_closed_range [0x30BF, 0x30CA, 0x30AB] (d_furigana tanaka_doc)"
    "in_closed_range [0x30BF, 0x30CA, 0x30AB] (d_lastNameKana tanaka_doc)"
    by code_simp+
  have ne: "trim [0x305F, 0x306A, 0x304B] \<noteq> []"
    unfolding t by simp
  note T = searchByName_fan_out [OF ne, of jst_host search_world, unfolded t k]
  from T have "calls (snd (searchByName jst_host [0x305F, 0x306A, 0x304B] search_world)) =
     calls search_world @
     [range_query ''name'' [0x305F, 0x306A, 0x304B],
      range_query ''lastName'' [0x305F, 0x306A, 0x304B],
      range_query ''firstName'' [0x305F, 0x306A, 0x304B],
      range_query ''furigana'' [0x30BF, 0x30CA, 0x30AB],
      range_query ''lastNameKana'' [0x30BF, 0x30CA, 0x30AB],
      range_query ''firstNameKana'' [0x30BF, 0x30CA, 0x30AB]]"
    by (rule conjunct1)
  moreover have "calls search_world = []"
    by (simp add: search_world_def)
  moreover from T r have
    "set (map r_id [convertResidentData [0x0061, 0x0061] tanaka_doc])
       = {i. \<exists>d. (i, d) \<in> set (residents search_world) \<and> matched_by [0x305F, 0x306A, 0x304B] d}"
    by blast
  then have "{i. \<exists>d. (i, d) \<in> set (residents search_world) \<and>
                  matched_by [0x305F, 0x306A, 0x304B] d} = {[0x0061, 0x0061]}"
    by (simp add: convertResidentData_def Let_def)
  ultimately show ?thesis
    using ne r twice by simp
qed

text \<open>
  With the half-open range of the specification the claim fails: a resident whose name
  is \<open>A\<close> followed by U+F8FF is returned for the query \<open>A\<close>, although none of its six
  fields lies in the half-open range of the term; its name is the upper end itself.
\<close>

theorem searchByName_half_open_counterexample:
  "residents sentinel_world = [([0x0061], latin_doc [0x0041, 0xF8FF])] \<and>
   fst (searchByName jst_host [0x0041] sentinel_world)
     = Inr [convertResidentData [0x0061] (latin_doc [0x0041, 0xF8FF])] \<and>
   \<not> matched_half_open (trim [0x0041]) (latin_doc [0x0041, 0xF8FF]) \<and>
   matched_by (trim [0x0041]) (latin_doc [0x0041, 0xF8FF])"
  by code_simp

section \<open>Ordering of the result lists\<close>

lemma ordered_by_name:
  assumes "order_fields cs = [''name'']"
  shows "sorted (map (\<lambda>r. codepoints (r_name r))
                   (map (\<lambda>(i, d). convertResidentData i d) (run_query resident_field cs docs)))"
proof -
  let ?key = "\<lambda>(i, d). order_key (resident_field ''name'' d)"
  let ?matched = "filter (\<lambda>(i, d). list_all (holds resident_field d) cs) docs"
  have q: "run_query resident_field cs docs = sort_key ?key ?matched"
    using assms by (simp add: run_query_def)
  have k: "(\<lambda>r. codepoints (r_name r)) \<circ> (\<lambda>(i, d). convertResidentData i d) = ?key"
    by (auto simp: fun_eq_iff convert_name order_key_def resident_field_def)
  have "sorted (map ?key (sort_key ?key ?matched))"
    by (rule sorted_sort_key)
  then show ?thesis
    unfolding q map_map k .
qed

lemma collate_le:
  "collate a b \<le> 0 \<longleftrightarrow>
     map fold_case a < map fold_case b \<or> (map fold_case a = map fold_case b \<and> b \<le> a)"
  by (auto simp: collate_def)

lemma collate_total_preorder:
  "(\<forall>a b c. collate a b \<le> 0 \<and> collate b c \<le> 0 \<longrightarrow> collate a c \<le> 0) \<and>
   (\<forall>a b. collate a b \<le> 0 \<or> collate b a \<le> 0)"
  unfolding collate_le by (auto intro: less_trans order_trans)

text \<open>
  Claim C3, as the code has it. The lists of \<open>getAll\<close>, \<open>getByCareLevel\<close> and
  \<open>getByMedication\<close> come from the store ordered by \<open>name\<close> and are in ascending
  code-point order of the full name. The list of \<open>searchByName\<close> is sorted by the
  source itself with \<open>localeCompare\<close> on the full name: whenever the collation of the
  host is transitive and compares any two strings, each entry of the list comes before
  or equal to every later entry in that collation.
\<close>

theorem result_ordering:
  "(fst (getAll w) = Inr rs \<longrightarrow> sorted (map (\<lambda>r. codepoints (r_name r)) rs)) \<and>
   (fst (getByCareLevel n w) = Inr rs \<longrightarrow> sorted (map (\<lambda>r. codepoints (r_name r)) rs)) \<and>
   (fst (getByMedication m w) = Inr rs \<longrightarrow> sorted (map (\<lambda>r. codepoints (r_name r)) rs)) \<and>
   ((\<forall>a b c. localeCompare h a b \<le> 0 \<and> localeCompare h b c \<le> 0 \<longrightarrow> localeCompare h a c \<le> 0) \<and>
    (\<forall>a b. localeCompare h a b \<le> 0 \<or> localeCompare h b a \<le> 0) \<and>
    fst (searchByName h q w) = Inr rs \<longrightarrow>
      sorted_wrt (\<lambda>a b. localeCompare h (r_name a) (r_name b) \<le> 0) rs)"
proof -
  have all: "sorted (map (\<lambda>r. codepoints (r_name r)) rs)" if "fst (getAll w) = Inr rs"
  proof -
    from that have "rs = map (\<lambda>(i, d). convertResidentData i d)
                           (run_query resident_field [OrderBy ''name''] (residents w))"
      by (auto simp: getAll_def getDocs_residents_def Let_def split: option.splits)
    then show ?thesis
      using ordered_by_name [of "[OrderBy ''name'']"] by simp
  qed
  have level: "sorted (map (\<lambda>r. codepoints (r_name r)) rs)" if "fst (getByCareLevel n w) = Inr rs"
  proof -
    from that have "rs = map (\<lambda>(i, d). convertResidentData i d)
                           (run_query resident_field
                              [Where ''careLevel'' EQ (VNum n), OrderBy ''name''] (residents w))"
      by (auto simp: getByCareLevel_def getDocs_residents_def Let_def split: option.splits)
    then show ?thesis
      using ordered_by_name [of "[Where ''careLevel'' EQ (VNum n), OrderBy ''name'']"] by simp
  qed
  have med: "sorted (map (\<lambda>r. codepoints (r_name r)) rs)" if "fst (getByMedication m w) = Inr rs"
  proof (cases "trim m = []")
    case True
    with that show ?thesis
      by (simp add: getByMedication_def)
  next
    case False
    with that have "rs = map (\<lambda>(i, d). convertResidentData i d)
                           (run_query resident_field
                              [Where ''medications'' ARRAY_CONTAINS (VStr (trim m)), OrderBy ''name'']
                              (residents w))"
      by (auto simp: getByMedication_def getDocs_residents_def Let_def split: option.splits)
    then show ?thesis
      using ordered_by_name
        [of "[Where ''medications'' ARRAY_CONTAINS (VStr (trim m)), OrderBy ''name'']"] by simp
  qed
  have search: "sorted_wrt (\<lambda>a b. localeCompare h (r_name a) (r_name b) \<le> 0) rs"
    if tr: "\<forall>a b c. localeCompare h a b \<le> 0 \<and> localeCompare h b c \<le> 0 \<longrightarrow> localeCompare h a c \<le> 0"
      and tot: "\<forall>a b. localeCompare h a b \<le> 0 \<or> localeCompare h b a \<le> 0"
      and ok: "fst (searchByName h q w) = Inr rs"
  proof (cases "trim q = []")
    case True
    with ok show ?thesis
      by (simp add: searchByName_def)
  next
    case False
    from ok obtain xs where "rs = js_sort (\<lambda>a b. localeCompare h (r_name a) (r_name b)) xs"
      unfolding searchByName_unfold [OF False]
      by (auto split: sum.splits simp del: getDocs_each.simps)
    moreover have "sorted_wrt (\<lambda>a b. localeCompare h (r_name a) (r_name b) \<le> 0)
                     (js_sort (\<lambda>a b. localeCompare h (r_name a) (r_name b)) xs)"
      using tr tot by (intro js_sort_sorted) blast+
    ultimately show ?thesis
      by simp
  qed
  show ?thesis
    using all level med search by blast
qed


theorem result_ordering_witness:
  "fst (getAll case_world) = Inr [resident_XB, resident_XA] \<and>
   fst (getByCareLevel 3 case_world) = Inr [resident_XB, resident_XA] \<and>
   sorted (map (\<lambda>r. codepoints (r_name r)) [resident_XB, resident_XA]) \<and>
   fst (getByMedication [0x0058] case_world) = Inr [] \<and>
   fst (searchByName jst_host [0x0058] case_world) = Inr [resident_XA, resident_XB] \<and>
   sorted_wrt (\<lambda>a b. localeCompare jst_host (r_name a) (r_name b) \<le> 0) [resident_XA, resident_XB]"
proof -
  have lc: "localeCompare jst_host = collate"
    by (simp add: jst_host_def fixed_offset_host_def)
  have pre:
    "\<forall>a b c. localeCompare jst_host a b \<le> 0 \<and> localeCompare jst_host b c \<le> 0
        \<longrightarrow> localeCompare jst_host a c \<le> 0"
    "\<forall>a b. localeCompare jst_host a b \<le> 0 \<or> localeCompare jst_host b a \<le> 0"
    unfolding lc using collate_total_preorder by blast+
  have r: "fst (getAll case_world) = Inr [resident_XB, resident_XA]"
    "fst (getByCareLevel 3 case_world) = Inr [resident_XB, resident_XA]"
    "fst (getByMedication [0x0058] case_world) = Inr []"
    "fst (searchByName jst_host [0x0058] case_world) = Inr [resident_XA, resident_XB]"
    by code_simp+
  from result_ordering [of case_world "[resident_XB, resident_XA]" 3 "[0x0058]" jst_host
      "[0x0058]"] r(1)
  have "sorted (map (\<lambda>r. codepoints (r_name r)) [resident_XB, resident_XA])"
    by blast
  moreover from result_ordering [of case_world "[resident_XA, resident_XB]" 3 "[0x0058]" jst_host
      "[0x0058]"] pre r(4)
  have "sorted_wrt (\<lambda>a b. localeCompare jst_host (r_name a) (r_name b) \<le> 0)
          [resident_XA, resident_XB]"
    by blast
  ultimately show ?thesis
    using r by blast
qed

text \<open>
  The list of \<open>searchByName\<close> is not in code-point order in general: on a host whose
  collation puts \<open>a\<close> before \<open>B\<close>, the search for \<open>X\<close> among the residents \<open>XB\<close> and
  \<open>Xa\<close> returns \<open>Xa\<close> before \<open>XB\<close>, while \<open>getAll\<close> returns \<open>XB\<close> before \<open>Xa\<close>.
\<close>

theorem searchByName_collation_counterexample:
  "fst (getAll case_world) = Inr [resident_XB, resident_XA] \<and>
   fst (searchByName jst_host [0x0058] case_world) = Inr [resident_XA, resident_XB] \<and>
   map r_name [resident_XA, resident_XB] = [[0x0058, 0x0061], [0x0058, 0x0042]] \<and>
   \<not> sorted (map (\<lambda>r. codepoints (r_name r)) [resident_XA, resident_XB])"
  by code_simp

end
